theory Spec2Isabelle
  imports Main "HOL-Library.Word"
begin

section \<open>Errors, panics and observable effects\<close>

text \<open>
  Go's \<^verbatim>\<open>error\<close> values. \<^verbatim>\<open>context.Canceled\<close> and
  \<^verbatim>\<open>context.DeadlineExceeded\<close> are the two sentinels of package context; any other
  error is a message, possibly wrapping another error (\<^verbatim>\<open>fmt.Errorf("...: %w", err)\<close>).
  A nil error is \<open>None\<close> of \<open>error option\<close>.
\<close>

datatype error = Canceled | DeadlineExceeded | ErrorString string | Wrapped string error

text \<open>\<^verbatim>\<open>errors.Is(err, target)\<close>: the error itself or one on its unwrap chain equals the target.\<close>

fun errors_Is :: "error \<Rightarrow> error \<Rightarrow> bool" where
  "errors_Is (Wrapped m e) t = (Wrapped m e = t \<or> errors_Is e t)"
| "errors_Is e t = (e = t)"

text \<open>\<^verbatim>\<open>err.Error()\<close>, the text that \<^verbatim>\<open>fmt.Println\<close> prints for an error.\<close>

fun Error :: "error \<Rightarrow> string" where
  "Error Canceled = ''context canceled''"
| "Error DeadlineExceeded = ''context deadline exceeded''"
| "Error (ErrorString s) = s"
| "Error (Wrapped m e) = m @ '': '' @ Error e"

text \<open>A panic unwinds the calling goroutine; it is the \<open>Inl\<close> of a result.\<close>

datatype panic = PanicString string | PanicError error | PanicMakeslice | PanicIndex

datatype level = Debug | Info | Warn

text \<open>
  What a call does to the outside world, in order: a read of the process environment, a
  message handed to the \<^verbatim>\<open>slog\<close> logger (level, message, the attached error), a line
  written to standard output, a \<^verbatim>\<open>Report\<close> RPC issued on the transport client.
\<close>

type_synonym Timestamp = "int \<times> int"

datatype TelemetryEventKind = INFO | WARNING | ERROR

record StackFrame =
  File :: string
  Function :: string
  Line :: "32 word"
  Column :: "32 word"

record TelemetryEvent =
  SessionId :: string
  Timestamp :: "Timestamp option"
  Kind :: TelemetryEventKind
  Name :: string
  Message :: string
  Values :: "string \<rightharpoonup> string"
  StackTrace :: "StackFrame list"
  Tags :: "string list"

text \<open>
  \<^verbatim>\<open>connect.Request\<close>: the message and the HTTP header, a map from a key to its
  values. \<^verbatim>\<open>Header().Set\<close> replaces the values of a key by the single given one (the key
  \<^verbatim>\<open>Authorization\<close> is already in canonical form).
\<close>

record Request =
  Msg :: TelemetryEvent
  Header :: "string \<rightharpoonup> string list"

definition Header_Set :: "Request \<Rightarrow> string \<Rightarrow> string \<Rightarrow> Request" where
  "Header_Set req k v = req\<lparr>Header := (Header req)(k \<mapsto> [v])\<rparr>"

datatype effect =
    Getenv string
  | Log level string "error option"
  | Println string
  | Report Request

section \<open>Session identifiers: \<^verbatim>\<open>util.GenerateID\<close>\<close>

definition letters :: string where
  "letters = ''abcdefghijklmnopqrstuvwxyzABCDEFGHIJKLMNOPQRSTUVWXYZ0123456789''"

text \<open>
  The random source is a parameter: \<open>rnd i\<close> is what the \<open>i\<close>-th call
  \<^verbatim>\<open>rand.Int(rand.Reader, big.NewInt(len(letters)))\<close> returns, an error or an integer.
  The loop \<^verbatim>\<open>for i := range id\<close> runs once per byte; an error panics, and so does an index
  outside the alphabet in \<^verbatim>\<open>letters[r.Int64()]\<close>.
\<close>

fun GenerateID_loop :: "(nat \<Rightarrow> error + int) \<Rightarrow> nat \<Rightarrow> nat \<Rightarrow> panic + string" where
  "GenerateID_loop rnd i 0 = Inr []"
| "GenerateID_loop rnd i (Suc k) =
     (case rnd i of
        Inl e \<Rightarrow> Inl (PanicError e)
      | Inr v \<Rightarrow>
          if 0 \<le> v \<and> v < int (length letters)
          then (case GenerateID_loop rnd (Suc i) k of
                  Inl p \<Rightarrow> Inl p
                | Inr s \<Rightarrow> Inr (letters ! nat v # s))
          else Inl PanicIndex)"

text \<open>\<^verbatim>\<open>make([]byte, n)\<close> panics for a negative length.\<close>

definition GenerateID :: "int \<Rightarrow> (nat \<Rightarrow> error + int) \<Rightarrow> panic + string" where
  "GenerateID n rnd = (if n < 0 then Inl PanicMakeslice else GenerateID_loop rnd 0 (nat n))"

text \<open>The spec's alphabet: lowercase letters, uppercase letters and digits.\<close>

definition alphanumeric :: "char \<Rightarrow> bool" where
  "alphanumeric c =
     (let k = (of_char c :: nat)
      in (97 \<le> k \<and> k \<le> 122) \<or> (65 \<le> k \<and> k \<le> 90) \<or> (48 \<le> k \<and> k \<le> 57))"

text \<open>The contract of \<^verbatim>\<open>rand.Int\<close> for the first \<open>n\<close> draws: no error, a value in \<open>[0, 62)\<close>.\<close>

definition rand_ok :: "(nat \<Rightarrow> error + int) \<Rightarrow> nat \<Rightarrow> nat \<Rightarrow> bool" where
  "rand_ok rnd i n = (\<forall>j \<in> {i ..< i + n}. case rnd j of Inl e \<Rightarrow> False | Inr v \<Rightarrow> 0 \<le> v \<and> v < 62)"

section \<open>The bounded task group\<close>

text \<open>
  A background task is one of the two closures the reporter hands to its task group: the
  send closure of \<^verbatim>\<open>ReportEvent\<close>, which captures the event, and the closure of
  \<^verbatim>\<open>Close\<close>, which returns \<^verbatim>\<open>context.Canceled\<close>.
\<close>

datatype task = ReportTask TelemetryEvent | CancelTask

text \<open>
  Modelled from the spec: the task group. The reporter uses \<^verbatim>\<open>errgroup.Group\<close> of
  golang.org/x/sync (go.mod: v0.7.0), a library whose code is not under src/. The spec
  calls it a concurrency-limiting task group bound to a cancellable context, with a
  non-blocking dispatch that fails immediately at the concurrency ceiling and a wait-for-all
  operation; the operations below follow the library's documented behaviour.
  The record holds the capacity of the semaphore (\<open>None\<close>: no limit), the tasks that hold a
  token and have not returned, whether a non-nil result has been recorded (\<^verbatim>\<open>errOnce\<close>),
  the first non-nil result, and whether the group's context is cancelled.
\<close>

record Group =
  sem :: "nat option"
  running :: "task list"
  errOnce :: bool
  err :: "error option"
  cancelled :: bool

text \<open>\<^verbatim>\<open>errgroup.WithContext(ctx)\<close>; the derived context is cancelled when the parent is.\<close>

definition WithContext :: "bool \<Rightarrow> Group" where
  "WithContext ctx_done =
     \<lparr>sem = None, running = [], errOnce = False, err = None, cancelled = ctx_done\<rparr>"

definition SetLimit :: "Group \<Rightarrow> nat \<Rightarrow> Group" where
  "SetLimit g n = g\<lparr>sem := Some n\<rparr>"

definition has_slot :: "Group \<Rightarrow> bool" where
  "has_slot g = (case sem g of None \<Rightarrow> True | Some n \<Rightarrow> length (running g) < n)"

text \<open>\<^verbatim>\<open>TryGo\<close> never blocks: it starts the task if a token is free and reports whether it did.\<close>

definition TryGo :: "Group \<Rightarrow> task \<Rightarrow> bool \<times> Group" where
  "TryGo g f = (if has_slot g then (True, g\<lparr>running := running g @ [f]\<rparr>) else (False, g))"

text \<open>\<^verbatim>\<open>Go\<close> blocks until a token is free: \<open>None\<close> is a call that cannot proceed in this state.\<close>

definition Go :: "Group \<Rightarrow> task \<Rightarrow> Group option" where
  "Go g f = (if has_slot g then Some (g\<lparr>running := running g @ [f]\<rparr>) else None)"

text \<open>
  The \<open>i\<close>-th running task returns \<open>res\<close>: the first non-nil result is stored and cancels the
  context, then the token is released.
\<close>

definition task_returned :: "Group \<Rightarrow> nat \<Rightarrow> error option \<Rightarrow> Group" where
  "task_returned g i res =
     (let g' = (case res of
                  None \<Rightarrow> g
                | Some e \<Rightarrow> if errOnce g then g
                            else g\<lparr>errOnce := True, err := Some e, cancelled := True\<rparr>)
      in g'\<lparr>running := take i (running g') @ drop (Suc i) (running g')\<rparr>)"

text \<open>\<^verbatim>\<open>Wait\<close> blocks until no task is running, cancels the context and returns the stored error.\<close>

definition Wait :: "Group \<Rightarrow> (error option \<times> Group) option" where
  "Wait g = (if running g = [] then Some (err g, g\<lparr>cancelled := True\<rparr>) else None)"

section \<open>The reporter\<close>

definition maxConcurrentReports :: nat where
  "maxConcurrentReports = 16"

definition telemetryOptOutEnvVar :: string where
  "telemetryOptOutEnvVar = ''NSH_NO_TELEMETRY''"

text \<open>\<^verbatim>\<open>os.Getenv\<close>: the value of the variable, the empty string when it is not set.\<close>

definition os_Getenv :: "(string \<rightharpoonup> string) \<Rightarrow> string \<Rightarrow> string" where
  "os_Getenv env k = (case env k of None \<Rightarrow> [] | Some v \<Rightarrow> v)"

datatype RootCAs = SystemRoots | EmbeddedRoots

record http_Client =
  Timeout :: nat
  TLSRootCAs :: RootCAs

text \<open>
  \<^verbatim>\<open>Configuration\<close>; its field \<^verbatim>\<open>Tags\<close> is \<open>ConfTags\<close> here, apart from the
  \<open>Tags\<close> of an event. The HTTP client is its timeout in seconds and its trust roots.
\<close>

record Configuration =
  BaseURL :: string
  AuthToken :: string
  ConfTags :: "string list"
  HTTPClient :: "http_Client option"

text \<open>
  The \<^verbatim>\<open>Reporter\<close> struct. The logger is the \<open>Log\<close> effects of each operation; the client
  is the HTTP client and base URL it was built from; \<^verbatim>\<open>reportsCtx\<close> is the \<open>cancelled\<close>
  field of the group.
\<close>

record Reporter =
  client :: "http_Client \<times> string"
  authToken :: string
  sessionID :: string
  tags :: "string list"
  reports :: Group
  shuttingDown :: bool
  enabled :: bool

text \<open>
  \<^verbatim>\<open>NewReporter\<close>. Parameters beside the configuration: the process environment, whether
  the caller's context is already done, whether the embedded roots.pem (not under src/)
  parses, and the random source. The result is the effects and a panic or the reporter.
\<close>

definition NewReporter ::
  "(string \<rightharpoonup> string) \<Rightarrow> bool \<Rightarrow> bool \<Rightarrow> (nat \<Rightarrow> error + int) \<Rightarrow> Configuration
     \<Rightarrow> effect list \<times> (panic + Reporter)" where
  "NewReporter env ctx_done roots_ok rnd conf =
     (let enabled = (os_Getenv env telemetryOptOutEnvVar = []);
          out = Getenv telemetryOptOutEnvVar #
                (if \<not> enabled then [Log Info ''Telemetry reporting is disabled'' None] else [])
      in case (case HTTPClient conf of
                 Some c \<Rightarrow> Inr c
               | None \<Rightarrow>
                   if \<not> roots_ok then Inl (PanicString ''failed to parse roots.pem'')
                   else Inr \<lparr>Timeout = 5, TLSRootCAs = EmbeddedRoots\<rparr>) of
           Inl p \<Rightarrow> (out, Inl p)
         | Inr httpClient \<Rightarrow>
             (let reports = SetLimit (WithContext ctx_done) maxConcurrentReports
              in case GenerateID 16 rnd of
                   Inl p \<Rightarrow> (out, Inl p)
                 | Inr sid \<Rightarrow>
                     (out, Inr \<lparr>client = (httpClient, BaseURL conf),
                                authToken = AuthToken conf,
                                sessionID = sid,
                                tags = ConfTags conf,
                                reports = reports,
                                shuttingDown = False,
                                enabled = enabled\<rparr>)))"

text \<open>
  The send closure of \<^verbatim>\<open>ReportEvent\<close>, run in the background. \<open>transport\<close> is what
  \<^verbatim>\<open>r.client.Report(ctx, req)\<close> answers for the request: nil or an error (a failed
  delivery, the 30 second deadline, the cancelled group context). The result is what the
  closure returns to the group and its effects.
\<close>

definition report_closure ::
  "Reporter \<Rightarrow> TelemetryEvent \<Rightarrow> (Request \<Rightarrow> error option) \<Rightarrow> error option \<times> effect list" where
  "report_closure r event transport =
     (let req0 = \<lparr>Msg = event, Header = Map.empty\<rparr>;
          req = (if authToken r \<noteq> []
                 then Header_Set req0 ''Authorization'' (''Bearer '' @ authToken r)
                 else req0)
      in case transport req of
           Some e \<Rightarrow>
             (None, [Report req,
                     Println (''Failed to report event '' @ Error e),
                     Log Debug ''Failed to report event'' (Some e)])
         | None \<Rightarrow> (None, [Report req]))"

fun run_task :: "Reporter \<Rightarrow> task \<Rightarrow> (Request \<Rightarrow> error option) \<Rightarrow> error option \<times> effect list" where
  "run_task r (ReportTask event) transport = report_closure r event transport"
| "run_task r CancelTask transport = (Some Canceled, [])"

text \<open>
  \<^verbatim>\<open>ReportEvent\<close>, up to its return: \<open>now\<close> is the clock reading of
  \<^verbatim>\<open>timestamppb.Now()\<close>. The event is passed by pointer, so the event as the caller sees
  it afterwards is part of the result, with the reporter and the effects.
\<close>

definition ReportEvent ::
  "Timestamp \<Rightarrow> Reporter \<Rightarrow> TelemetryEvent \<Rightarrow> Reporter \<times> TelemetryEvent \<times> effect list" where
  "ReportEvent now r event =
     (if \<not> enabled r
      then (r, event, [Log Debug ''Telemetry reporting is disabled, dropping event'' None])
      else
        let event1 = event\<lparr>Timestamp := Some now\<rparr>;
            event2 = (if SessionId event1 = [] then event1\<lparr>SessionId := sessionID r\<rparr> else event1);
            event3 = event2\<lparr>Tags := Tags event2 @ tags r\<rparr>
        in if shuttingDown r
           then (r, event3, [Log Debug ''Shutting down, dropping event'' None])
           else (case TryGo (reports r) (ReportTask event3) of
                   (started, g) \<Rightarrow>
                     (r\<lparr>reports := g\<rparr>, event3,
                      if \<not> started
                      then [Log Warn ''Too many in-flight telemetry reports, dropping event'' None]
                      else [])))"

text \<open>
  What \<^verbatim>\<open>Close\<close> returns, given the result of its \<^verbatim>\<open>Wait\<close>, and what
  \<^verbatim>\<open>Shutdown\<close> returns in the \<^verbatim>\<open>reportsDone\<close> case of its \<^verbatim>\<open>select\<close>, given the
  result of the \<^verbatim>\<open>Wait\<close> of its helper goroutine.
\<close>

definition Close_return :: "error option \<Rightarrow> error option" where
  "Close_return werr =
     (case werr of
        None \<Rightarrow> None
      | Some e \<Rightarrow> if \<not> errors_Is e Canceled then Some e else None)"

definition Shutdown_return :: "error option \<Rightarrow> error option" where
  "Shutdown_return werr =
     (case werr of
        None \<Rightarrow> None
      | Some e \<Rightarrow> if \<not> errors_Is e Canceled then Some e else None)"

section \<open>Interleavings\<close>

text \<open>
  The atomic steps of a reporter shared by concurrent callers and background tasks: a call of
  \<^verbatim>\<open>ReportEvent\<close> (it never blocks), the store of the shutting-down flag in
  \<^verbatim>\<open>Shutdown\<close>, the \<^verbatim>\<open>Go\<close> of \<^verbatim>\<open>Close\<close>, the return of the \<open>i\<close>-th running task
  given the transport's answer, and the return of a pending \<^verbatim>\<open>Wait\<close>. A step that is
  blocked in the state is \<open>None\<close>.
\<close>

datatype action =
    CallReportEvent Timestamp TelemetryEvent
  | StoreShuttingDown
  | CloseGo
  | TaskReturn nat "Request \<Rightarrow> error option"
  | WaitReturn

fun step :: "action \<Rightarrow> Reporter \<Rightarrow> (Reporter \<times> effect list) option" where
  "step (CallReportEvent now event) r =
     (case ReportEvent now r event of (r', event', out) \<Rightarrow> Some (r', out))"
| "step StoreShuttingDown r = Some (r\<lparr>shuttingDown := True\<rparr>, [])"
| "step CloseGo r =
     (case Go (reports r) CancelTask of
        None \<Rightarrow> None
      | Some g \<Rightarrow> Some (r\<lparr>reports := g\<rparr>, []))"
| "step (TaskReturn i transport) r =
     (if i < length (running (reports r))
      then (case run_task r (running (reports r) ! i) transport of
              (res, out) \<Rightarrow> Some (r\<lparr>reports := task_returned (reports r) i res\<rparr>, out))
      else None)"
| "step WaitReturn r =
     (case Wait (reports r) of
        None \<Rightarrow> None
      | Some (werr, g) \<Rightarrow> Some (r\<lparr>reports := g\<rparr>, []))"

fun run :: "action list \<Rightarrow> Reporter \<Rightarrow> (Reporter \<times> effect list) option" where
  "run [] r = Some (r, [])"
| "run (a # as) r =
     (case step a r of
        None \<Rightarrow> None
      | Some (r', out) \<Rightarrow>
          (case run as r' of
             None \<Rightarrow> None
           | Some (r'', out') \<Rightarrow> Some (r'', out @ out')))"

text \<open>
  \<^verbatim>\<open>Close\<close> run to its return while other steps \<open>pre\<close> happen before its \<^verbatim>\<open>Go\<close> gets a
  token and \<open>post\<close> before its \<^verbatim>\<open>Wait\<close> returns. The result is the returned error, the
  reporter and the effects; \<open>None\<close> is a call that is still blocked after these steps.
\<close>

definition Close ::
  "action list \<Rightarrow> action list \<Rightarrow> Reporter \<Rightarrow> (error option \<times> Reporter \<times> effect list) option" where
  "Close pre post r =
     (case run (pre @ [CloseGo] @ post) r of
        None \<Rightarrow> None
      | Some (r', out) \<Rightarrow>
          (case Wait (reports r') of
             None \<Rightarrow> None
           | Some (werr, g) \<Rightarrow> Some (Close_return werr, r'\<lparr>reports := g\<rparr>, out)))"

text \<open>
  \<^verbatim>\<open>Shutdown\<close>: the flag is stored first. \<open>c\<close> is the case of the \<^verbatim>\<open>select\<close> that fires:
  the caller's context is done after the steps \<open>wait\<close>, and the call continues as
  \<^verbatim>\<open>Close\<close>; or the \<^verbatim>\<open>Wait\<close> of the helper goroutine has returned after them.
\<close>

datatype select_case = CtxDone | ReportsDone

definition Shutdown ::
  "select_case \<Rightarrow> action list \<Rightarrow> action list \<Rightarrow> action list \<Rightarrow> Reporter
     \<Rightarrow> (error option \<times> Reporter \<times> effect list) option" where
  "Shutdown c wait pre post r =
     (case run (StoreShuttingDown # wait) r of
        None \<Rightarrow> None
      | Some (r', out) \<Rightarrow>
          (case c of
             CtxDone \<Rightarrow>
               (case Close pre post r' of
                  None \<Rightarrow> None
                | Some (res, r'', out') \<Rightarrow> Some (res, r'', out @ out'))
           | ReportsDone \<Rightarrow>
               (case Wait (reports r') of
                  None \<Rightarrow> None
                | Some (werr, g) \<Rightarrow>
                    Some (Shutdown_return werr, r'\<lparr>reports := g\<rparr>, out))))"

text \<open>The send tasks among the tasks of a group, and the reads of the environment among effects.\<close>

fun is_ReportTask :: "task \<Rightarrow> bool" where
  "is_ReportTask (ReportTask event) = True"
| "is_ReportTask CancelTask = False"

fun is_Getenv :: "effect \<Rightarrow> bool" where
  "is_Getenv (Getenv k) = True"
| "is_Getenv e = False"

section \<open>The reporter without task group\<close>

text \<open>
  The reporter of \<^verbatim>\<open>src/reporter.go\<close>, the variant without task group: it has no
  configured tags, adds the tag \<^verbatim>\<open>backend\<close> to an event without the tag \<^verbatim>\<open>web\<close>, and
  sends in the caller's goroutine.
\<close>

record Reporter0 =
  authToken0 :: string
  sessionID0 :: string
  enabled0 :: bool

text \<open>The loop over the tags, which stops at the first \<^verbatim>\<open>web\<close>.\<close>

fun webEvent :: "string list \<Rightarrow> bool" where
  "webEvent [] = False"
| "webEvent (tag # rest) = (if tag = ''web'' then True else webEvent rest)"

definition ReportEvent0 ::
  "Timestamp \<Rightarrow> (Request \<Rightarrow> error option) \<Rightarrow> Reporter0 \<Rightarrow> TelemetryEvent
     \<Rightarrow> TelemetryEvent \<times> effect list" where
  "ReportEvent0 now transport r event =
     (if \<not> enabled0 r then (event, [])
      else
        let event1 = event\<lparr>Timestamp := Some now\<rparr>;
            event2 = (if SessionId event1 = [] then event1\<lparr>SessionId := sessionID0 r\<rparr> else event1);
            event3 = (if \<not> webEvent (Tags event2)
                      then event2\<lparr>Tags := Tags event2 @ [''backend'']\<rparr> else event2);
            req0 = \<lparr>Msg = event3, Header = Map.empty\<rparr>;
            req = (if authToken0 r \<noteq> []
                   then Header_Set req0 ''Authorization'' (''Bearer '' @ authToken0 r)
                   else req0)
        in case transport req of
             Some e \<Rightarrow> (event3, [Report req, Log Debug ''Failed to report event'' (Some e)])
           | None \<Rightarrow> (event3, [Report req]))"

section \<open>Concrete inputs\<close>

text \<open>A random source within the contract, a configuration, and the reporter they give.\<close>

definition example_rnd :: "nat \<Rightarrow> error + int" where
  "example_rnd i = Inr (int ((7 * i + 3) mod 62))"

definition example_conf :: Configuration where
  "example_conf = \<lparr>BaseURL = ''https://telemetry.example'', AuthToken = ''s3cret'',
     ConfTags = [''cli''], HTTPClient = None\<rparr>"

definition example_group :: Group where
  "example_group = \<lparr>sem = Some 16, running = [], errOnce = False, err = None, cancelled = False\<rparr>"

definition example_reporter :: Reporter where
  "example_reporter =
     \<lparr>client = (\<lparr>Timeout = 5, TLSRootCAs = EmbeddedRoots\<rparr>, ''https://telemetry.example''),
      authToken = ''s3cret'', sessionID = ''dkryFMT07elszGNU'', tags = [''cli''],
      reports = example_group, shuttingDown = False, enabled = True\<rparr>"

definition example_event :: TelemetryEvent where
  "example_event =
     \<lparr>SessionId = [], Timestamp = None, Kind = INFO, Name = ''test'', Message = [],
      Values = Map.empty, StackTrace = [], Tags = [''web'']\<rparr>"

definition example_disabled :: Reporter where
  "example_disabled = example_reporter\<lparr>enabled := False\<rparr>"

definition example_failure :: "Request \<Rightarrow> error option" where
  "example_failure req = Some (Wrapped ''unavailable'' DeadlineExceeded)"

definition example_stamped :: TelemetryEvent where
  "example_stamped =
     \<lparr>SessionId = ''dkryFMT07elszGNU'', Timestamp = Some (1700000000, 0), Kind = INFO,
      Name = ''test'', Message = [], Values = Map.empty, StackTrace = [],
      Tags = [''web'', ''cli'']\<rparr>"

definition example_request :: Request where
  "example_request =
     \<lparr>Msg = example_stamped, Header = [''Authorization'' \<mapsto> [''Bearer s3cret'']]\<rparr>"

definition example_busy :: "nat \<Rightarrow> Reporter" where
  "example_busy k =
     example_reporter\<lparr>reports := example_group\<lparr>running := replicate k (ReportTask example_stamped)\<rparr>\<rparr>"

definition example_reporter0 :: Reporter0 where
  "example_reporter0 = \<lparr>authToken0 = ''s3cret'', sessionID0 = ''dkryFMT07elszGNU'', enabled0 = True\<rparr>"

definition example_success :: "Request \<Rightarrow> error option" where
  "example_success req = None"

definition example_shutting :: "nat \<Rightarrow> Reporter" where
  "example_shutting k = (example_busy k)\<lparr>shuttingDown := True\<rparr>"

definition example_drained :: Reporter where
  "example_drained =
     example_reporter\<lparr>shuttingDown := True, reports := example_group\<lparr>cancelled := True\<rparr>\<rparr>"

definition example_failed :: "error \<Rightarrow> Reporter" where
  "example_failed e =
     example_reporter\<lparr>reports := example_group\<lparr>errOnce := True, err := Some e, cancelled := True\<rparr>\<rparr>"

section \<open>Properties of the identifier generator\<close>

lemma letters_length: "length letters = 62"
  by (simp add: letters_def)

lemma letters_distinct: "distinct letters"
  by (simp add: letters_def)

lemma letters_alphanumeric: "list_all alphanumeric letters"
  by (simp add: letters_def alphanumeric_def)

lemma GenerateID_loop_Inr:
  "GenerateID_loop rnd i k = Inr s \<Longrightarrow> length s = k \<and> set s \<subseteq> set letters"
proof (induction k arbitrary: i s)
  case 0
  then show ?case by simp
next
  case (Suc k)
  from Suc.prems obtain v s' where v: "0 \<le> v" "v < int (length letters)"
    and rec: "GenerateID_loop rnd (Suc i) k = Inr s'" and s: "s = letters ! nat v # s'"
    by (auto split: sum.splits if_splits)
  from v have "letters ! nat v \<in> set letters" by (simp add: nat_less_iff)
  with Suc.IH [OF rec] s show ?case by simp
qed

lemma GenerateID_loop_total:
  "rand_ok rnd i k \<Longrightarrow> \<exists>s. GenerateID_loop rnd i k = Inr s"
proof (induction k arbitrary: i)
  case 0
  then show ?case by simp
next
  case (Suc k)
  from Suc.prems have here: "case rnd i of Inl e \<Rightarrow> False | Inr v \<Rightarrow> 0 \<le> v \<and> v < 62"
    by (simp add: rand_ok_def)
  from Suc.prems have "rand_ok rnd (Suc i) k"
    by (auto simp: rand_ok_def)
  from Suc.IH [OF this] obtain s where "GenerateID_loop rnd (Suc i) k = Inr s" ..
  with here show ?case
    by (auto simp: letters_length split: sum.splits)
qed

lemma GenerateID_Inr:
  "GenerateID n rnd = Inr s \<Longrightarrow> int (length s) = n \<and> set s \<subseteq> set letters"
  by (auto simp: GenerateID_def split: if_splits dest: GenerateID_loop_Inr)

lemma alphanumeric_subset: "set s \<subseteq> set letters \<Longrightarrow> list_all alphanumeric s"
  using letters_alphanumeric by (auto simp: list_all_iff)

lemma example_rnd_ok: "rand_ok example_rnd 0 n"
  by (simp add: rand_ok_def example_rnd_def)

lemma GenerateID_example: "GenerateID 16 example_rnd = Inr ''dkryFMT07elszGNU''"
  by code_simp

section \<open>Construction\<close>

lemma NewReporter_Inr:
  assumes "NewReporter env ctx_done roots_ok rnd conf = (out, Inr r)"
  shows "GenerateID 16 rnd = Inr (sessionID r) \<and> authToken r = AuthToken conf \<and>
    tags r = ConfTags conf \<and> shuttingDown r = False \<and>
    enabled r = (os_Getenv env telemetryOptOutEnvVar = []) \<and>
    reports r = SetLimit (WithContext ctx_done) maxConcurrentReports"
  using assms
  by (auto simp: NewReporter_def Let_def split: sum.splits option.splits if_splits)

lemma NewReporter_example:
  "NewReporter Map.empty False True example_rnd example_conf
     = ([Getenv ''NSH_NO_TELEMETRY''], Inr example_reporter)"
  by (simp add: NewReporter_def GenerateID_example example_conf_def example_reporter_def
      example_group_def os_Getenv_def telemetryOptOutEnvVar_def SetLimit_def WithContext_def
      maxConcurrentReports_def)

text \<open>
  C8. The alphabet of \<^verbatim>\<open>GenerateID\<close> has 62 distinct symbols, all of them letters or
  digits. For every \<open>n \<ge> 0\<close> and a random source that keeps the contract of
  \<^verbatim>\<open>rand.Int\<close>, \<^verbatim>\<open>GenerateID(n)\<close> returns a string of length \<open>n\<close> over that alphabet.
  The session identifier of every reporter that \<^verbatim>\<open>NewReporter\<close> returns has exactly 16
  characters of that alphabet.
\<close>

theorem GenerateID_alphabet:
  "length letters = 62 \<and> distinct letters \<and> list_all alphanumeric letters \<and>
   (0 \<le> n \<and> rand_ok rnd 0 (nat n) \<longrightarrow>
      (\<exists>s. GenerateID n rnd = Inr s \<and> int (length s) = n \<and> set s \<subseteq> set letters
            \<and> list_all alphanumeric s)) \<and>
   (NewReporter env ctx_done roots_ok rnd conf = (out, Inr r) \<longrightarrow>
      length (sessionID r) = 16 \<and> set (sessionID r) \<subseteq> set letters
      \<and> list_all alphanumeric (sessionID r))"
proof (intro conjI impI)
  show "length letters = 62" by (rule letters_length)
  show "distinct letters" by (rule letters_distinct)
  show "list_all alphanumeric letters" by (rule letters_alphanumeric)
next
  assume h: "0 \<le> n \<and> rand_ok rnd 0 (nat n)"
  then obtain s where s: "GenerateID_loop rnd 0 (nat n) = Inr s"
    using GenerateID_loop_total by blast
  with h have g: "GenerateID n rnd = Inr s" by (simp add: GenerateID_def)
  from GenerateID_Inr [OF g] alphanumeric_subset g
  show "\<exists>s. GenerateID n rnd = Inr s \<and> int (length s) = n \<and> set s \<subseteq> set letters
            \<and> list_all alphanumeric s" by blast
next
  assume h: "NewReporter env ctx_done roots_ok rnd conf = (out, Inr r)"
  from NewReporter_Inr [OF h] have g: "GenerateID 16 rnd = Inr (sessionID r)" by simp
  from GenerateID_Inr [OF g] show "length (sessionID r) = 16" by simp
  from GenerateID_Inr [OF g] show "set (sessionID r) \<subseteq> set letters" by simp
  then show "list_all alphanumeric (sessionID r)" by (rule alphanumeric_subset)
qed

theorem GenerateID_alphabet_witness:
  "(0::int) \<le> 16 \<and> rand_ok example_rnd 0 (nat 16) \<and>
   GenerateID 16 example_rnd = Inr ''dkryFMT07elszGNU'' \<and>
   NewReporter Map.empty False True example_rnd example_conf
     = ([Getenv ''NSH_NO_TELEMETRY''], Inr example_reporter) \<and>
   length (sessionID example_reporter) = 16 \<and>
   list_all alphanumeric (sessionID example_reporter)"
  using GenerateID_alphabet [of 16 example_rnd Map.empty False True example_conf
      "[Getenv ''NSH_NO_TELEMETRY'']" example_reporter]
    example_rnd_ok [of "nat 16"] GenerateID_example NewReporter_example
  by simp

lemma NewReporter_example_disabled:
  "NewReporter [''NSH_NO_TELEMETRY'' \<mapsto> ''1''] False True example_rnd example_conf
     = ([Getenv ''NSH_NO_TELEMETRY'', Log Info ''Telemetry reporting is disabled'' None],
        Inr example_disabled)"
  by (simp add: NewReporter_def GenerateID_example example_conf_def example_reporter_def
      example_group_def os_Getenv_def telemetryOptOutEnvVar_def SetLimit_def WithContext_def
      maxConcurrentReports_def example_disabled_def)

lemma NewReporter_example_no_token:
  "NewReporter Map.empty False True example_rnd (example_conf\<lparr>AuthToken := []\<rparr>)
     = ([Getenv ''NSH_NO_TELEMETRY''], Inr (example_reporter\<lparr>authToken := []\<rparr>))"
  by (simp add: NewReporter_def GenerateID_example example_conf_def example_reporter_def
      example_group_def os_Getenv_def telemetryOptOutEnvVar_def SetLimit_def WithContext_def
      maxConcurrentReports_def)

section \<open>What no step changes\<close>

lemma ReportEvent_enabled:
  assumes "enabled r"
  shows "fst (snd (ReportEvent now r event)) =
     event\<lparr>Timestamp := Some now,
           SessionId := (if SessionId event = [] then sessionID r else SessionId event),
           Tags := Tags event @ tags r\<rparr>"
  using assms by (simp add: ReportEvent_def Let_def split: prod.splits)

lemma ReportEvent_disabled:
  "\<not> enabled r \<Longrightarrow> ReportEvent now r event =
      (r, event, [Log Debug ''Telemetry reporting is disabled, dropping event'' None])"
  by (simp add: ReportEvent_def)

lemma ReportEvent_fields:
  "ReportEvent now r event = (r', event', out) \<Longrightarrow>
     client r' = client r \<and> authToken r' = authToken r \<and> sessionID r' = sessionID r \<and>
     tags r' = tags r \<and> enabled r' = enabled r \<and> shuttingDown r' = shuttingDown r \<and>
     sem (reports r') = sem (reports r) \<and> err (reports r') = err (reports r) \<and>
     errOnce (reports r') = errOnce (reports r)"
  by (auto simp: ReportEvent_def Let_def TryGo_def split: if_splits prod.splits)

lemma step_fields:
  assumes "step a r = Some (r', out)"
  shows "client r' = client r \<and> authToken r' = authToken r \<and> sessionID r' = sessionID r \<and>
     tags r' = tags r \<and> enabled r' = enabled r \<and> (shuttingDown r \<longrightarrow> shuttingDown r') \<and>
     sem (reports r') = sem (reports r)"
proof (cases a)
  case (CallReportEvent now event)
  with assms obtain event' where "ReportEvent now r event = (r', event', out)"
    by (auto split: prod.splits)
  from ReportEvent_fields [OF this] show ?thesis by simp
next
  case StoreShuttingDown
  with assms show ?thesis by auto
next
  case CloseGo
  with assms show ?thesis by (auto simp: Go_def split: option.splits if_splits)
next
  case (TaskReturn i transport)
  with assms show ?thesis
    by (auto simp: task_returned_def Let_def split: option.splits if_splits prod.splits)
next
  case WaitReturn
  with assms show ?thesis by (auto simp: Wait_def split: option.splits if_splits)
qed

lemma run_fields:
  "run acts r = Some (r', out) \<Longrightarrow>
     client r' = client r \<and> authToken r' = authToken r \<and> sessionID r' = sessionID r \<and>
     tags r' = tags r \<and> enabled r' = enabled r \<and> (shuttingDown r \<longrightarrow> shuttingDown r') \<and>
     sem (reports r') = sem (reports r)"
proof (induction acts arbitrary: r out)
  case Nil
  then show ?case by simp
next
  case (Cons a acts)
  from Cons.prems obtain r1 o1 o2 where s: "step a r = Some (r1, o1)"
    and t: "run acts r1 = Some (r', o2)"
    by (auto split: option.splits prod.splits)
  from step_fields [OF s] Cons.IH [OF t] show ?case by simp
qed

lemma run_append:
  "run (as @ bs) r =
     (case run as r of
        None \<Rightarrow> None
      | Some (r', out) \<Rightarrow>
          (case run bs r' of None \<Rightarrow> None | Some (r'', out') \<Rightarrow> Some (r'', out @ out')))"
  by (induction as arbitrary: r) (auto split: option.splits prod.splits)

lemma reachable_fields:
  assumes "NewReporter env ctx_done roots_ok rnd conf = (out0, Inr r0)"
    and "run acts r0 = Some (r, out)"
  shows "length (sessionID r) = 16 \<and> authToken r = AuthToken conf \<and> tags r = ConfTags conf \<and>
    enabled r = (os_Getenv env telemetryOptOutEnvVar = []) \<and>
    sem (reports r) = Some maxConcurrentReports"
proof -
  note n = NewReporter_Inr [OF assms(1)]
  from n have "GenerateID 16 rnd = Inr (sessionID r0)" by simp
  from GenerateID_Inr [OF this] have "length (sessionID r0) = 16" by simp
  moreover from n have "sem (reports r0) = Some maxConcurrentReports"
    by (simp add: SetLimit_def)
  ultimately show ?thesis using n run_fields [OF assms(2)] by simp
qed

section \<open>Concrete runs\<close>

lemma ReportEvent_example:
  "k < 16 \<Longrightarrow> ReportEvent (1700000000, 0) (example_busy k) example_event
     = (example_busy (Suc k), example_stamped, [])"
  by (simp add: ReportEvent_def example_busy_def example_reporter_def example_group_def
      example_event_def example_stamped_def TryGo_def has_slot_def replicate_append_same Let_def)

lemma run_example_calls:
  "j + k \<le> 16 \<Longrightarrow>
   run (replicate k (CallReportEvent (1700000000, 0) example_event)) (example_busy j)
     = Some (example_busy (j + k), [])"
proof (induction k arbitrary: j)
  case 0
  then show ?case by simp
next
  case (Suc k)
  then have "j < 16" and "Suc j + k \<le> 16" by simp_all
  from ReportEvent_example [OF this(1)] Suc.IH [OF this(2)] show ?case by simp
qed

lemma example_busy_0: "example_busy 0 = example_reporter"
  by (simp add: example_busy_def example_reporter_def example_group_def)

lemma run_example_full:
  "run (replicate 16 (CallReportEvent (1700000000, 0) example_event)) example_reporter
     = Some (example_busy 16, [])"
  using run_example_calls [of 0 16] by (simp add: example_busy_0)

lemma run_example_send:
  "run [CallReportEvent (1700000000, 0) example_event, TaskReturn 0 example_failure]
       example_reporter
     = Some (example_reporter,
        [Report example_request,
         Println ''Failed to report event unavailable: context deadline exceeded'',
         Log Debug ''Failed to report event'' (Some (Wrapped ''unavailable'' DeadlineExceeded))])"
  by (simp add: ReportEvent_def Let_def TryGo_def has_slot_def report_closure_def
      task_returned_def Header_Set_def example_reporter_def example_group_def example_event_def
      example_stamped_def example_request_def example_failure_def)

lemma run_example_send_no_token:
  "run [CallReportEvent (1700000000, 0) example_event, TaskReturn 0 example_success]
       (example_reporter\<lparr>authToken := []\<rparr>)
     = Some (example_reporter\<lparr>authToken := []\<rparr>,
        [Report (example_request\<lparr>Header := Map.empty\<rparr>)])"
  by (simp add: ReportEvent_def Let_def TryGo_def has_slot_def report_closure_def
      task_returned_def Header_Set_def example_reporter_def example_group_def example_event_def
      example_stamped_def example_request_def example_success_def)

lemma ReportEvent0_example:
  "snd (ReportEvent0 (1700000000, 0) example_success example_reporter0 example_event)
     = [Report \<lparr>Msg = example_stamped\<lparr>Tags := [''web'']\<rparr>,
                Header = [''Authorization'' \<mapsto> [''Bearer s3cret'']]\<rparr>]"
  by (simp add: ReportEvent0_def Let_def Header_Set_def example_reporter0_def
      example_event_def example_stamped_def example_success_def)

lemma ReportEvent0_example_no_token:
  "snd (ReportEvent0 (1700000000, 0) example_success (example_reporter0\<lparr>authToken0 := []\<rparr>)
         (example_event\<lparr>Tags := []\<rparr>))
     = [Report \<lparr>Msg = example_stamped\<lparr>Tags := [''backend'']\<rparr>, Header = Map.empty\<rparr>]"
  by (simp add: ReportEvent0_def Let_def Header_Set_def example_reporter0_def
      example_event_def example_stamped_def example_success_def)

section \<open>Stamping of events\<close>

text \<open>
  C1, amended. For every event passed to \<^verbatim>\<open>ReportEvent\<close> on an enabled reporter, in
  any state that \<^verbatim>\<open>NewReporter\<close> and later steps lead to (shutting down or not, at
  capacity or not): after the call the session id is non-empty, the timestamp is the clock
  reading taken by the call, and the tags are the caller's tags followed by the configured
  tags, duplicates kept. A disabled reporter returns before the stamping and leaves the
  event as it was.
\<close>

theorem ReportEvent_stamps:
  assumes "NewReporter env ctx_done roots_ok rnd conf = (out0, Inr r0)"
    and "run acts r0 = Some (r, out)"
    and "ReportEvent now r event = (r', event', out')"
  shows "(enabled r \<longrightarrow>
            SessionId event' \<noteq> [] \<and> Timestamp event' = Some now \<and>
            Tags event' = Tags event @ ConfTags conf) \<and>
         (\<not> enabled r \<longrightarrow> event' = event)"
proof (intro conjI impI)
  assume en: "enabled r"
  note f = reachable_fields [OF assms(1,2)]
  from f have sid: "sessionID r \<noteq> []" by auto
  from ReportEvent_enabled [OF en, of now event] assms(3)
  have e: "event' = event\<lparr>Timestamp := Some now,
           SessionId := (if SessionId event = [] then sessionID r else SessionId event),
           Tags := Tags event @ tags r\<rparr>" by simp
  from e sid show "SessionId event' \<noteq> []" by simp
  from e show "Timestamp event' = Some now" by simp
  from e f show "Tags event' = Tags event @ ConfTags conf" by simp
next
  assume "\<not> enabled r"
  from ReportEvent_disabled [OF this, of now event] assms(3) show "event' = event" by simp
qed

theorem ReportEvent_stamps_witness:
  "NewReporter Map.empty False True example_rnd example_conf
     = ([Getenv ''NSH_NO_TELEMETRY''], Inr example_reporter) \<and>
   run [] example_reporter = Some (example_reporter, []) \<and>
   enabled example_reporter \<and>
   ReportEvent (1700000000, 0) example_reporter example_event
     = (example_busy 1, example_stamped, []) \<and>
   SessionId example_stamped \<noteq> [] \<and> Timestamp example_stamped = Some (1700000000, 0) \<and>
   Tags example_stamped = Tags example_event @ ConfTags example_conf \<and>
   NewReporter [''NSH_NO_TELEMETRY'' \<mapsto> ''1''] False True example_rnd example_conf
     = ([Getenv ''NSH_NO_TELEMETRY'', Log Info ''Telemetry reporting is disabled'' None],
        Inr example_disabled) \<and>
   run [] example_disabled = Some (example_disabled, []) \<and>
   \<not> enabled example_disabled \<and>
   ReportEvent (1700000000, 0) example_disabled example_event
     = (example_disabled, example_event,
        [Log Debug ''Telemetry reporting is disabled, dropping event'' None])"
proof -
  have r: "run [] example_reporter = Some (example_reporter, [])"
    and r': "run [] example_disabled = Some (example_disabled, [])" by simp_all
  have a: "ReportEvent (1700000000, 0) example_reporter example_event
     = (example_busy 1, example_stamped, [])"
    using ReportEvent_example [of 0] by (simp add: example_busy_0)
  have b: "ReportEvent (1700000000, 0) example_disabled example_event
     = (example_disabled, example_event,
        [Log Debug ''Telemetry reporting is disabled, dropping event'' None])"
    by (simp add: ReportEvent_def example_disabled_def example_reporter_def)
  have e: "enabled example_reporter" "\<not> enabled example_disabled"
    by (simp_all add: example_disabled_def example_reporter_def)
  from ReportEvent_stamps [OF NewReporter_example r a]
    ReportEvent_stamps [OF NewReporter_example_disabled r' b]
    NewReporter_example NewReporter_example_disabled r r' a b e
  show ?thesis by simp
qed

text \<open>
  C1 as stated, for any reporter state including a disabled one, fails: the reporter
  constructed with the opt-out variable set leaves an event with an empty session id, no
  timestamp and only the caller's tags.
\<close>

theorem ReportEvent_disabled_counterexample:
  "NewReporter [''NSH_NO_TELEMETRY'' \<mapsto> ''1''] False True example_rnd example_conf
     = ([Getenv ''NSH_NO_TELEMETRY'', Log Info ''Telemetry reporting is disabled'' None],
        Inr example_disabled) \<and>
   SessionId (fst (snd (ReportEvent (1700000000, 0) example_disabled example_event))) = [] \<and>
   Timestamp (fst (snd (ReportEvent (1700000000, 0) example_disabled example_event))) = None \<and>
   Tags (fst (snd (ReportEvent (1700000000, 0) example_disabled example_event))) = [''web''] \<and>
   tags example_disabled = [''cli'']"
  by (simp add: NewReporter_example_disabled ReportEvent_def example_disabled_def
      example_reporter_def example_event_def)

text \<open>
  C7. For every call of \<^verbatim>\<open>ReportEvent\<close> on an enabled reporter: an empty session id
  of the event is set to the reporter's session id, a non-empty one is left unchanged.
\<close>

theorem ReportEvent_session_id:
  assumes "enabled r" and "ReportEvent now r event = (r', event', out)"
  shows "(SessionId event = [] \<longrightarrow> SessionId event' = sessionID r) \<and>
         (SessionId event \<noteq> [] \<longrightarrow> SessionId event' = SessionId event)"
  using ReportEvent_enabled [OF assms(1), of now event] assms(2) by simp

theorem ReportEvent_session_id_witness:
  "enabled example_reporter \<and>
   ReportEvent (1700000000, 0) example_reporter example_event
     = (example_busy 1, example_stamped, []) \<and>
   SessionId example_event = [] \<and> SessionId example_stamped = sessionID example_reporter \<and>
   ReportEvent (1700000000, 0) example_reporter (example_event\<lparr>SessionId := ''caller''\<rparr>)
     = (example_reporter\<lparr>reports := example_group\<lparr>running :=
           [ReportTask (example_stamped\<lparr>SessionId := ''caller''\<rparr>)]\<rparr>\<rparr>,
        example_stamped\<lparr>SessionId := ''caller''\<rparr>, []) \<and>
   SessionId (example_event\<lparr>SessionId := ''caller''\<rparr>) \<noteq> [] \<and>
   SessionId (example_stamped\<lparr>SessionId := ''caller''\<rparr>) = ''caller''"
proof -
  have e: "enabled example_reporter" by (simp add: example_reporter_def)
  have a: "ReportEvent (1700000000, 0) example_reporter example_event
     = (example_busy 1, example_stamped, [])"
    using ReportEvent_example [of 0] by (simp add: example_busy_0)
  have b: "ReportEvent (1700000000, 0) example_reporter (example_event\<lparr>SessionId := ''caller''\<rparr>)
     = (example_reporter\<lparr>reports := example_group\<lparr>running :=
           [ReportTask (example_stamped\<lparr>SessionId := ''caller''\<rparr>)]\<rparr>\<rparr>,
        example_stamped\<lparr>SessionId := ''caller''\<rparr>, [])"
    by (simp add: ReportEvent_def Let_def example_reporter_def example_group_def
      example_event_def example_stamped_def TryGo_def has_slot_def)
  from ReportEvent_session_id [OF e a] ReportEvent_session_id [OF e b] e a b
  show ?thesis by (simp add: example_event_def)
qed

section \<open>Dispatch at the concurrency ceiling\<close>

text \<open>
  C3, amended. For every call of \<^verbatim>\<open>ReportEvent\<close> on an enabled reporter that is not
  shutting down and whose task group holds 16 running tasks: \<^verbatim>\<open>TryGo\<close> fails, the only
  effect is the warning, and the reporter is unchanged, so the event is neither queued nor
  dispatched; the call returns (the function is total, no step of it can block).
\<close>

theorem ReportEvent_at_capacity:
  assumes "NewReporter env ctx_done roots_ok rnd conf = (out0, Inr r0)"
    and "run acts r0 = Some (r, out)"
    and "enabled r" and "\<not> shuttingDown r"
    and "length (running (reports r)) = 16"
  shows "ReportEvent now r event =
     (r,
      event\<lparr>Timestamp := Some now,
            SessionId := (if SessionId event = [] then sessionID r else SessionId event),
            Tags := Tags event @ tags r\<rparr>,
      [Log Warn ''Too many in-flight telemetry reports, dropping event'' None])"
proof -
  from reachable_fields [OF assms(1,2)] have "sem (reports r) = Some 16"
    by (simp add: maxConcurrentReports_def)
  with assms(5) have "\<not> has_slot (reports r)" by (simp add: has_slot_def)
  with assms(3,4) show ?thesis
    by (simp add: ReportEvent_def TryGo_def Let_def)
qed

theorem ReportEvent_at_capacity_witness:
  "NewReporter Map.empty False True example_rnd example_conf
     = ([Getenv ''NSH_NO_TELEMETRY''], Inr example_reporter) \<and>
   run (replicate 16 (CallReportEvent (1700000000, 0) example_event)) example_reporter
     = Some (example_busy 16, []) \<and>
   enabled (example_busy 16) \<and> \<not> shuttingDown (example_busy 16) \<and>
   length (running (reports (example_busy 16))) = 16 \<and>
   ReportEvent (1700000001, 5) (example_busy 16) example_event =
     (example_busy 16,
      example_event\<lparr>Timestamp := Some (1700000001, 5), SessionId := ''dkryFMT07elszGNU'',
                    Tags := [''web'', ''cli'']\<rparr>,
      [Log Warn ''Too many in-flight telemetry reports, dropping event'' None])"
proof -
  have e: "enabled (example_busy 16)" and s: "\<not> shuttingDown (example_busy 16)"
    and l: "length (running (reports (example_busy 16))) = 16"
    by (simp_all add: example_busy_def example_reporter_def example_group_def)
  from ReportEvent_at_capacity [OF NewReporter_example run_example_full e s l,
      of "(1700000001, 5)" example_event]
    NewReporter_example run_example_full e s l
  show ?thesis
    by (simp add: example_busy_def example_reporter_def example_event_def)
qed

text \<open>
  C3 as stated, for every enabled reporter at the ceiling, fails when the reporter is
  shutting down: the call returns at the shutting-down test, before any dispatch attempt,
  and logs at debug level, not a warning.
\<close>

theorem ReportEvent_at_capacity_counterexample:
  "run (replicate 16 (CallReportEvent (1700000000, 0) example_event) @ [StoreShuttingDown])
       example_reporter
     = Some ((example_busy 16)\<lparr>shuttingDown := True\<rparr>, []) \<and>
   enabled ((example_busy 16)\<lparr>shuttingDown := True\<rparr>) \<and>
   sem (reports ((example_busy 16)\<lparr>shuttingDown := True\<rparr>)) = Some 16 \<and>
   length (running (reports ((example_busy 16)\<lparr>shuttingDown := True\<rparr>))) = 16 \<and>
   snd (snd (ReportEvent (1700000001, 5) ((example_busy 16)\<lparr>shuttingDown := True\<rparr>) example_event))
     = [Log Debug ''Shutting down, dropping event'' None]"
proof -
  have "run (replicate 16 (CallReportEvent (1700000000, 0) example_event) @ [StoreShuttingDown])
       example_reporter = Some ((example_busy 16)\<lparr>shuttingDown := True\<rparr>, [])"
    by (simp add: run_append run_example_full)
  moreover have "snd (snd (ReportEvent (1700000001, 5)
      ((example_busy 16)\<lparr>shuttingDown := True\<rparr>) example_event))
     = [Log Debug ''Shutting down, dropping event'' None]"
    by (simp add: ReportEvent_def Let_def example_busy_def example_reporter_def)
  ultimately show ?thesis
    by (simp add: example_busy_def example_reporter_def example_group_def)
qed

section \<open>The background send\<close>

text \<open>
  C2. A transport failure of a background send is to produce a debug-level log message and
  no other output. The send closure swallows the failure (it returns nil, whatever the
  transport answers), but before the debug message it writes the failure to standard output
  with \<^verbatim>\<open>fmt.Println\<close>, under the comment "Don't spam the logs when the user is
  offline". The closure evaluated at a failing transport:
\<close>

theorem report_closure_prints:
  "report_closure example_reporter example_stamped example_failure =
     (None,
      [Report example_request,
       Println ''Failed to report event unavailable: context deadline exceeded'',
       Log Debug ''Failed to report event'' (Some (Wrapped ''unavailable'' DeadlineExceeded))])"
  by (simp add: report_closure_def example_reporter_def example_failure_def example_request_def
      Header_Set_def)

lemma report_closure_requests:
  "Report req \<in> set (snd (report_closure r event transport)) \<Longrightarrow>
     Msg req = event \<and>
     Header req = (if authToken r \<noteq> [] then [''Authorization'' \<mapsto> [''Bearer '' @ authToken r]]
                   else Map.empty)"
  by (auto simp: report_closure_def Let_def Header_Set_def split: option.splits if_splits)

lemma run_task_requests:
  "Report req \<in> set (snd (run_task r t transport)) \<Longrightarrow>
     Header req = (if authToken r \<noteq> [] then [''Authorization'' \<mapsto> [''Bearer '' @ authToken r]]
                   else Map.empty)"
  by (cases t) (auto dest: report_closure_requests)

lemma ReportEvent_no_request:
  "Report req \<notin> set (snd (snd (ReportEvent now r event)))"
  by (auto simp: ReportEvent_def Let_def split: prod.splits)

lemma step_requests:
  assumes "step a r = Some (r', out)" and "Report req \<in> set out"
  shows "Header req = (if authToken r \<noteq> [] then [''Authorization'' \<mapsto> [''Bearer '' @ authToken r]]
                   else Map.empty)"
proof (cases a)
  case (CallReportEvent now event)
  with assms ReportEvent_no_request [of req now r event] show ?thesis
    by (auto split: prod.splits)
next
  case StoreShuttingDown
  with assms show ?thesis by auto
next
  case CloseGo
  with assms show ?thesis by (auto split: option.splits)
next
  case (TaskReturn i transport)
  with assms have "Report req \<in> set (snd (run_task r (running (reports r) ! i) transport))"
    by (auto split: if_splits prod.splits)
  then show ?thesis by (rule run_task_requests)
next
  case WaitReturn
  with assms show ?thesis by (auto split: option.splits)
qed

lemma run_requests:
  "run acts r = Some (r', out) \<Longrightarrow> Report req \<in> set out \<Longrightarrow>
   Header req = (if authToken r \<noteq> [] then [''Authorization'' \<mapsto> [''Bearer '' @ authToken r]]
                   else Map.empty)"
proof (induction acts arbitrary: r out)
  case Nil
  then show ?case by simp
next
  case (Cons a acts)
  from Cons.prems(1) obtain r1 o1 o2 where s: "step a r = Some (r1, o1)"
    and t: "run acts r1 = Some (r', o2)" and o: "out = o1 @ o2"
    by (auto split: option.splits prod.splits)
  from Cons.prems(2) o consider "Report req \<in> set o1" | "Report req \<in> set o2" by auto
  then show ?case
  proof cases
    case 1
    from step_requests [OF s 1] show ?thesis .
  next
    case 2
    from Cons.IH [OF t 2] step_fields [OF s] show ?thesis by simp
  qed
qed

lemma ReportEvent0_requests:
  "Report req \<in> set (snd (ReportEvent0 now transport r0 event)) \<Longrightarrow>
     Header req = (if authToken0 r0 \<noteq> [] then [''Authorization'' \<mapsto> [''Bearer '' @ authToken0 r0]]
                   else Map.empty)"
  by (auto simp: ReportEvent0_def Let_def Header_Set_def split: option.splits if_splits)

text \<open>
  C9. Every request handed to the transport, by a background send of a reporter that
  \<^verbatim>\<open>NewReporter\<close> built or by the reporter without task group, carries the header
  \<^verbatim>\<open>Authorization: Bearer <token>\<close> when the configured token is non-empty, and no
  \<^verbatim>\<open>Authorization\<close> header when it is empty.
\<close>

theorem Authorization_header:
  "(NewReporter env ctx_done roots_ok rnd conf = (out0, Inr r0) \<and>
    run acts r0 = Some (r, out) \<and> Report req \<in> set out \<longrightarrow>
      (AuthToken conf \<noteq> [] \<longrightarrow>
         Header req ''Authorization'' = Some [''Bearer '' @ AuthToken conf]) \<and>
      (AuthToken conf = [] \<longrightarrow> Header req ''Authorization'' = None)) \<and>
   (Report req \<in> set (snd (ReportEvent0 now transport r1 event)) \<longrightarrow>
      (authToken0 r1 \<noteq> [] \<longrightarrow>
         Header req ''Authorization'' = Some [''Bearer '' @ authToken0 r1]) \<and>
      (authToken0 r1 = [] \<longrightarrow> Header req ''Authorization'' = None))"
proof (intro conjI impI)
  assume h: "NewReporter env ctx_done roots_ok rnd conf = (out0, Inr r0) \<and>
    run acts r0 = Some (r, out) \<and> Report req \<in> set out"
  then have t: "authToken r0 = AuthToken conf" using NewReporter_Inr by blast
  from h run_requests have hd: "Header req =
     (if authToken r0 \<noteq> [] then [''Authorization'' \<mapsto> [''Bearer '' @ authToken r0]]
      else Map.empty)" by blast
  { assume "AuthToken conf \<noteq> []"
    with t hd show "Header req ''Authorization'' = Some [''Bearer '' @ AuthToken conf]" by simp }
  { assume "AuthToken conf = []"
    with t hd show "Header req ''Authorization'' = None" by simp }
next
  assume h: "Report req \<in> set (snd (ReportEvent0 now transport r1 event))"
  note hd = ReportEvent0_requests [OF h]
  { assume "authToken0 r1 \<noteq> []"
    with hd show "Header req ''Authorization'' = Some [''Bearer '' @ authToken0 r1]" by simp }
  { assume "authToken0 r1 = []"
    with hd show "Header req ''Authorization'' = None" by simp }
qed

theorem Authorization_header_witness:
  "NewReporter Map.empty False True example_rnd example_conf
     = ([Getenv ''NSH_NO_TELEMETRY''], Inr example_reporter) \<and>
   run [CallReportEvent (1700000000, 0) example_event, TaskReturn 0 example_failure]
       example_reporter
     = Some (example_reporter,
        [Report example_request,
         Println ''Failed to report event unavailable: context deadline exceeded'',
         Log Debug ''Failed to report event'' (Some (Wrapped ''unavailable'' DeadlineExceeded))]) \<and>
   AuthToken example_conf \<noteq> [] \<and>
   Header example_request ''Authorization'' = Some [''Bearer s3cret''] \<and>
   NewReporter Map.empty False True example_rnd (example_conf\<lparr>AuthToken := []\<rparr>)
     = ([Getenv ''NSH_NO_TELEMETRY''], Inr (example_reporter\<lparr>authToken := []\<rparr>)) \<and>
   run [CallReportEvent (1700000000, 0) example_event, TaskReturn 0 example_success]
       (example_reporter\<lparr>authToken := []\<rparr>)
     = Some (example_reporter\<lparr>authToken := []\<rparr>,
        [Report (example_request\<lparr>Header := Map.empty\<rparr>)]) \<and>
   AuthToken (example_conf\<lparr>AuthToken := []\<rparr>) = [] \<and>
   Header (example_request\<lparr>Header := Map.empty\<rparr>) ''Authorization'' = None \<and>
   snd (ReportEvent0 (1700000000, 0) example_success example_reporter0 example_event)
     = [Report \<lparr>Msg = example_stamped\<lparr>Tags := [''web'']\<rparr>,
                Header = [''Authorization'' \<mapsto> [''Bearer s3cret'']]\<rparr>] \<and>
   authToken0 example_reporter0 \<noteq> [] \<and>
   snd (ReportEvent0 (1700000000, 0) example_success (example_reporter0\<lparr>authToken0 := []\<rparr>)
         (example_event\<lparr>Tags := []\<rparr>))
     = [Report \<lparr>Msg = example_stamped\<lparr>Tags := [''backend'']\<rparr>, Header = Map.empty\<rparr>] \<and>
   authToken0 (example_reporter0\<lparr>authToken0 := []\<rparr>) = []"
proof -
  note n1 = NewReporter_example and n2 = NewReporter_example_no_token
  note r1 = run_example_send and r2 = run_example_send_no_token
  note s1 = ReportEvent0_example and s2 = ReportEvent0_example_no_token
  have t1: "AuthToken example_conf \<noteq> []" by (simp add: example_conf_def)
  have t2: "AuthToken (example_conf\<lparr>AuthToken := []\<rparr>) = []" by simp
  have t3: "authToken0 example_reporter0 \<noteq> []" by (simp add: example_reporter0_def)
  have t4: "authToken0 (example_reporter0\<lparr>authToken0 := []\<rparr>) = []" by simp
  have m1: "Report example_request \<in> set [Report example_request,
         Println ''Failed to report event unavailable: context deadline exceeded'',
         Log Debug ''Failed to report event'' (Some (Wrapped ''unavailable'' DeadlineExceeded))]"
    by simp
  have m2: "Report (example_request\<lparr>Header := Map.empty\<rparr>)
      \<in> set [Report (example_request\<lparr>Header := Map.empty\<rparr>)]" by simp
  have m3: "Report \<lparr>Msg = example_stamped\<lparr>Tags := [''web'']\<rparr>,
                Header = [''Authorization'' \<mapsto> [''Bearer s3cret'']]\<rparr>
      \<in> set (snd (ReportEvent0 (1700000000, 0) example_success example_reporter0 example_event))"
    by (simp only: s1 list.set_intros)
  have m4: "Report \<lparr>Msg = example_stamped\<lparr>Tags := [''backend'']\<rparr>, Header = Map.empty\<rparr>
      \<in> set (snd (ReportEvent0 (1700000000, 0) example_success
           (example_reporter0\<lparr>authToken0 := []\<rparr>) (example_event\<lparr>Tags := []\<rparr>)))"
    by (simp only: s2 list.set_intros)
  from Authorization_header [of Map.empty False True example_rnd example_conf
      "[Getenv ''NSH_NO_TELEMETRY'']" example_reporter
      "[CallReportEvent (1700000000, 0) example_event, TaskReturn 0 example_failure]"
      example_reporter _ example_request] n1 r1 m1 t1
  have "Header example_request ''Authorization'' = Some [''Bearer '' @ AuthToken example_conf]"
    by blast
  then have h1: "Header example_request ''Authorization'' = Some [''Bearer s3cret'']"
    by (simp add: example_conf_def)
  from Authorization_header [of Map.empty False True example_rnd
      "example_conf\<lparr>AuthToken := []\<rparr>"
      "[Getenv ''NSH_NO_TELEMETRY'']" "example_reporter\<lparr>authToken := []\<rparr>"
      "[CallReportEvent (1700000000, 0) example_event, TaskReturn 0 example_success]"
      "example_reporter\<lparr>authToken := []\<rparr>" _
      "example_request\<lparr>Header := Map.empty\<rparr>"] n2 r2 m2 t2
  have h2: "Header (example_request\<lparr>Header := Map.empty\<rparr>) ''Authorization'' = None"
    by blast
  from Authorization_header [of _ _ _ _ _ _ _ _ _ _
      "\<lparr>Msg = example_stamped\<lparr>Tags := [''web'']\<rparr>,
        Header = [''Authorization'' \<mapsto> [''Bearer s3cret'']]\<rparr>"
      "(1700000000, 0)" example_success example_reporter0 example_event] m3 t3
  have h3: "Header \<lparr>Msg = example_stamped\<lparr>Tags := [''web'']\<rparr>,
        Header = [''Authorization'' \<mapsto> [''Bearer s3cret'']]\<rparr> ''Authorization''
      = Some [''Bearer '' @ authToken0 example_reporter0]"
    by blast
  from Authorization_header [of _ _ _ _ _ _ _ _ _ _
      "\<lparr>Msg = example_stamped\<lparr>Tags := [''backend'']\<rparr>, Header = Map.empty\<rparr>"
      "(1700000000, 0)" example_success "example_reporter0\<lparr>authToken0 := []\<rparr>"
      "example_event\<lparr>Tags := []\<rparr>"] m4 t4
  have h4: "Header \<lparr>Msg = example_stamped\<lparr>Tags := [''backend'']\<rparr>, Header = Map.empty\<rparr>
      ''Authorization'' = None"
    by blast
  show ?thesis by (intro conjI) (fact n1 r1 t1 h1 n2 r2 t2 h2 s1 t3 s2 t4)+
qed

section \<open>Shutting down\<close>

lemma length_filter_remove:
  "length (filter P (take i xs)) + length (filter P (drop (Suc i) xs)) \<le> length (filter P xs)"
proof -
  have "length (filter P (drop (Suc i) xs)) \<le> length (filter P (drop i xs))"
  proof (cases "i < length xs")
    case True
    then have "drop i xs = xs ! i # drop (Suc i) xs" by (simp add: Cons_nth_drop_Suc)
    then show ?thesis by simp
  next
    case False
    then show ?thesis by simp
  qed
  moreover have "length (filter P xs)
      = length (filter P (take i xs)) + length (filter P (drop i xs))"
    by (metis append_take_drop_id filter_append length_append)
  ultimately show ?thesis by simp
qed

lemma ReportEvent_shuttingDown:
  assumes "shuttingDown r" and "enabled r"
  shows "ReportEvent now r event =
     (r,
      event\<lparr>Timestamp := Some now,
            SessionId := (if SessionId event = [] then sessionID r else SessionId event),
            Tags := Tags event @ tags r\<rparr>,
      [Log Debug ''Shutting down, dropping event'' None])"
  using assms by (simp add: ReportEvent_def Let_def)

lemma ReportEvent_shuttingDown_reporter:
  assumes "shuttingDown r"
  shows "fst (ReportEvent now r event) = r"
  using assms by (simp add: ReportEvent_def Let_def)

lemma step_report_tasks:
  assumes "step a r = Some (r', out)" and "shuttingDown r"
  shows "length (filter is_ReportTask (running (reports r')))
       \<le> length (filter is_ReportTask (running (reports r)))"
proof (cases a)
  case (CallReportEvent now event)
  with assms ReportEvent_shuttingDown_reporter [OF assms(2), of now event] show ?thesis
    by (auto split: prod.splits)
next
  case StoreShuttingDown
  with assms show ?thesis by auto
next
  case CloseGo
  with assms show ?thesis by (auto simp: Go_def split: option.splits if_splits)
next
  case (TaskReturn i transport)
  with assms show ?thesis
    by (auto simp: task_returned_def Let_def length_filter_remove
        split: option.splits if_splits prod.splits)
next
  case WaitReturn
  with assms show ?thesis by (auto simp: Wait_def split: option.splits if_splits)
qed

lemma run_report_tasks:
  "run acts r = Some (r', out) \<Longrightarrow> shuttingDown r \<Longrightarrow>
     length (filter is_ReportTask (running (reports r')))
       \<le> length (filter is_ReportTask (running (reports r)))"
proof (induction acts arbitrary: r out)
  case Nil
  then show ?case by simp
next
  case (Cons a acts)
  from Cons.prems(1) obtain r1 o1 o2 where s: "step a r = Some (r1, o1)"
    and t: "run acts r1 = Some (r', o2)"
    by (auto split: option.splits prod.splits)
  from step_fields [OF s] Cons.prems(2) have "shuttingDown r1" by simp
  from Cons.IH [OF t this] step_report_tasks [OF s Cons.prems(2)] show ?case by simp
qed

lemma Close_run:
  assumes "Close pre post r = Some (res, r', out)"
  obtains r1 where "run (pre @ [CloseGo] @ post) r = Some (r1, out)"
    and "running (reports r1) = []" and "res = Close_return (err (reports r1))"
    and "r' = r1\<lparr>reports := (reports r1)\<lparr>cancelled := True\<rparr>\<rparr>"
  using assms
  by (auto simp: Close_def Wait_def split: option.splits prod.splits if_splits)

lemma Shutdown_run:
  assumes "Shutdown c wait pre post r = Some (res, r', out)"
  obtains r1 where "run (StoreShuttingDown # wait @ (if c = CtxDone then pre @ [CloseGo] @ post else [])) r
      = Some (r1, out)"
    and "running (reports r1) = []" and "res = Close_return (err (reports r1))"
    and "r' = r1\<lparr>reports := (reports r1)\<lparr>cancelled := True\<rparr>\<rparr>"
proof (cases c)
  case CtxDone
  with assms obtain r0 o0 o1 where a: "run (StoreShuttingDown # wait) r = Some (r0, o0)"
    and b: "Close pre post r0 = Some (res, r', o1)" and o: "out = o0 @ o1"
    by (auto simp: Shutdown_def split: option.splits prod.splits)
  from b obtain r1 where c: "run (pre @ [CloseGo] @ post) r0 = Some (r1, o1)"
    and d: "running (reports r1) = []" "res = Close_return (err (reports r1))"
      "r' = r1\<lparr>reports := (reports r1)\<lparr>cancelled := True\<rparr>\<rparr>"
    by (rule Close_run)
  from a c o have "run ((StoreShuttingDown # wait) @ (pre @ [CloseGo] @ post)) r = Some (r1, out)"
    by (simp only: run_append option.case prod.case)
  with CtxDone d that show ?thesis by simp
next
  case ReportsDone
  with assms obtain r1 where a: "run (StoreShuttingDown # wait) r = Some (r1, out)"
    and d: "running (reports r1) = []" "res = Shutdown_return (err (reports r1))"
      "r' = r1\<lparr>reports := (reports r1)\<lparr>cancelled := True\<rparr>\<rparr>"
    by (auto simp: Shutdown_def Wait_def split: option.splits prod.splits if_splits)
  from d(2) have "res = Close_return (err (reports r1))"
    by (simp add: Shutdown_return_def Close_return_def)
  with ReportsDone a d that show ?thesis by simp
qed

lemma run_example_shutting:
  "run [CallReportEvent (1700000001, 5) example_event, TaskReturn 0 example_success]
       (example_shutting 1)
     = Some (example_shutting 0,
        [Log Debug ''Shutting down, dropping event'' None, Report example_request])"
  by (simp add: ReportEvent_def Let_def report_closure_def task_returned_def Header_Set_def
      example_shutting_def example_busy_def example_reporter_def example_group_def
      example_request_def example_success_def)

lemma ReportEvent_example_shutting:
  "ReportEvent (1700000002, 0) (example_shutting 0) example_event
     = (example_shutting 0,
        example_event\<lparr>Timestamp := Some (1700000002, 0), SessionId := ''dkryFMT07elszGNU'',
                      Tags := [''web'', ''cli'']\<rparr>,
        [Log Debug ''Shutting down, dropping event'' None])"
  by (simp add: ReportEvent_def Let_def example_shutting_def example_busy_def
      example_reporter_def example_event_def)

lemma Shutdown_example:
  "Shutdown ReportsDone [] [] [] example_reporter = Some (None, example_drained, [])"
  by (simp add: Shutdown_def Wait_def Shutdown_return_def example_drained_def
      example_reporter_def example_group_def)

text \<open>
  C4. The store of \<^verbatim>\<open>Shutdown\<close> sets the shutting-down flag, and no step clears it:
  along every interleaving that starts with the flag set, the flag stays set and the number
  of send tasks in the group never grows; a call of \<^verbatim>\<open>ReportEvent\<close> on an enabled
  reporter then leaves the reporter as it is, so nothing is dispatched, and only logs the
  drop. The flag is set in the reporter that a returning \<^verbatim>\<open>Shutdown\<close> leaves.
  (A call of \<^verbatim>\<open>ReportEvent\<close> is one step here: a call that read the flag before the
  store is not a subsequent call.)
\<close>

theorem shuttingDown_monotonic:
  "step StoreShuttingDown r0 = Some (r0\<lparr>shuttingDown := True\<rparr>, []) \<and>
   (shuttingDown r \<and> run acts r = Some (r', out) \<longrightarrow>
      shuttingDown r' \<and>
      length (filter is_ReportTask (running (reports r')))
        \<le> length (filter is_ReportTask (running (reports r))) \<and>
      (enabled r' \<longrightarrow>
         fst (ReportEvent now r' event) = r' \<and>
         snd (snd (ReportEvent now r' event)) = [Log Debug ''Shutting down, dropping event'' None])) \<and>
   (Shutdown c wait pre post r0 = Some (res, r1, out1) \<longrightarrow> shuttingDown r1)"
proof (intro conjI impI)
  show "step StoreShuttingDown r0 = Some (r0\<lparr>shuttingDown := True\<rparr>, [])" by simp
next
  assume h: "shuttingDown r \<and> run acts r = Some (r', out)"
  then have r: "run acts r = Some (r', out)" and s: "shuttingDown r" by simp_all
  from run_fields [OF r] s show s': "shuttingDown r'" by simp
  from run_report_tasks [OF r s]
  show "length (filter is_ReportTask (running (reports r')))
        \<le> length (filter is_ReportTask (running (reports r)))" .
  { assume e: "enabled r'"
    from ReportEvent_shuttingDown [OF s' e, of now event]
    show "fst (ReportEvent now r' event) = r'"
      and "snd (snd (ReportEvent now r' event)) = [Log Debug ''Shutting down, dropping event'' None]"
      by simp_all }
next
  assume "Shutdown c wait pre post r0 = Some (res, r1, out1)"
  then obtain r2 where a: "run (StoreShuttingDown # wait @ (if c = CtxDone then pre @ [CloseGo] @ post else [])) r0
      = Some (r2, out1)" and b: "r1 = r2\<lparr>reports := (reports r2)\<lparr>cancelled := True\<rparr>\<rparr>"
    by (rule Shutdown_run)
  from a obtain o2 where "run (wait @ (if c = CtxDone then pre @ [CloseGo] @ post else []))
      (r0\<lparr>shuttingDown := True\<rparr>) = Some (r2, o2)"
    by (auto split: option.splits prod.splits)
  from run_fields [OF this] b show "shuttingDown r1" by simp
qed

theorem shuttingDown_monotonic_witness:
  "shuttingDown (example_shutting 1) \<and>
   run [CallReportEvent (1700000001, 5) example_event, TaskReturn 0 example_success]
       (example_shutting 1)
     = Some (example_shutting 0,
        [Log Debug ''Shutting down, dropping event'' None, Report example_request]) \<and>
   shuttingDown (example_shutting 0) \<and> enabled (example_shutting 0) \<and>
   running (reports (example_shutting 0)) = [] \<and>
   ReportEvent (1700000002, 0) (example_shutting 0) example_event
     = (example_shutting 0,
        example_event\<lparr>Timestamp := Some (1700000002, 0), SessionId := ''dkryFMT07elszGNU'',
                      Tags := [''web'', ''cli'']\<rparr>,
        [Log Debug ''Shutting down, dropping event'' None]) \<and>
   Shutdown ReportsDone [] [] [] example_reporter = Some (None, example_drained, []) \<and>
   shuttingDown example_drained"
proof -
  have s1: "shuttingDown (example_shutting 1)" by (simp add: example_shutting_def)
  note r = run_example_shutting
  have e: "enabled (example_shutting 0)"
    and n: "running (reports (example_shutting 0)) = []"
    by (simp_all add: example_shutting_def example_busy_def example_reporter_def example_group_def)
  note c = ReportEvent_example_shutting
  note d = Shutdown_example
  from shuttingDown_monotonic [of _ "example_shutting 1"
      "[CallReportEvent (1700000001, 5) example_event, TaskReturn 0 example_success]"
      "example_shutting 0"
      "[Log Debug ''Shutting down, dropping event'' None, Report example_request]"
      "(1700000002, 0)" example_event] s1 r
  have s0: "shuttingDown (example_shutting 0)" by blast
  from shuttingDown_monotonic [of example_reporter _ _ _ _ _ _ ReportsDone "[]" "[]" "[]"
      None example_drained "[]"] d
  have s2: "shuttingDown example_drained" by blast
  show ?thesis by (intro conjI) (fact s1 r s0 e n c d s2)+
qed

section \<open>What Close and Shutdown return\<close>

lemma Close_example:
  "Close [] [TaskReturn 0 example_success] example_reporter
     = Some (None, example_failed Canceled, [])"
  by (simp add: Close_def Go_def has_slot_def task_returned_def Wait_def Close_return_def
      example_failed_def example_reporter_def example_group_def)

lemma Close_example_failed:
  "Close [] [TaskReturn 0 example_success] (example_failed e)
     = Some (Close_return (Some e), example_failed e, [])"
  by (simp add: Close_def Go_def has_slot_def task_returned_def Wait_def
      example_failed_def example_reporter_def example_group_def)

lemma Shutdown_example_failed:
  "Shutdown ReportsDone [] [] [] (example_failed e)
     = Some (Close_return (Some e), (example_failed e)\<lparr>shuttingDown := True\<rparr>, [])"
  by (simp add: Shutdown_def Wait_def Shutdown_return_def Close_return_def
      example_failed_def example_reporter_def example_group_def)

lemma Shutdown_example_CtxDone:
  "Shutdown CtxDone [] [] [TaskReturn 0 example_success] (example_failed e)
     = Some (Close_return (Some e), (example_failed e)\<lparr>shuttingDown := True\<rparr>, [])"
  by (simp add: Shutdown_def Close_def Go_def has_slot_def task_returned_def Wait_def
      example_failed_def example_reporter_def example_group_def)

text \<open>
  C5. Whenever \<^verbatim>\<open>Close\<close> or \<^verbatim>\<open>Shutdown\<close> (by either case of its
  \<^verbatim>\<open>select\<close>) returns: if the task group holds no error or an error that is a
  cancellation (\<^verbatim>\<open>errors.Is(err, context.Canceled)\<close>), the method returns nil; if it
  holds any other error, the method returns that error.
\<close>

theorem Close_Shutdown_cancellation:
  "(Close pre post r = Some (res, r', out) \<longrightarrow>
      (err (reports r') = None \<longrightarrow> res = None) \<and>
      (\<forall>e. err (reports r') = Some e \<longrightarrow>
         (errors_Is e Canceled \<longrightarrow> res = None) \<and> (\<not> errors_Is e Canceled \<longrightarrow> res = Some e))) \<and>
   (Shutdown c wait pre post r = Some (res, r', out) \<longrightarrow>
      (err (reports r') = None \<longrightarrow> res = None) \<and>
      (\<forall>e. err (reports r') = Some e \<longrightarrow>
         (errors_Is e Canceled \<longrightarrow> res = None) \<and> (\<not> errors_Is e Canceled \<longrightarrow> res = Some e)))"
proof (intro conjI impI)
  assume "Close pre post r = Some (res, r', out)"
  then obtain r1 where "res = Close_return (err (reports r1))"
    and "r' = r1\<lparr>reports := (reports r1)\<lparr>cancelled := True\<rparr>\<rparr>"
    by (rule Close_run)
  then have res: "res = Close_return (err (reports r'))" by simp
  then show "err (reports r') = None \<Longrightarrow> res = None" by (simp add: Close_return_def)
  from res show "\<forall>e. err (reports r') = Some e \<longrightarrow>
         (errors_Is e Canceled \<longrightarrow> res = None) \<and> (\<not> errors_Is e Canceled \<longrightarrow> res = Some e)"
    by (simp add: Close_return_def)
next
  assume "Shutdown c wait pre post r = Some (res, r', out)"
  then obtain r1 where "res = Close_return (err (reports r1))"
    and "r' = r1\<lparr>reports := (reports r1)\<lparr>cancelled := True\<rparr>\<rparr>"
    by (rule Shutdown_run)
  then have res: "res = Close_return (err (reports r'))" by simp
  then show "err (reports r') = None \<Longrightarrow> res = None" by (simp add: Close_return_def)
  from res show "\<forall>e. err (reports r') = Some e \<longrightarrow>
         (errors_Is e Canceled \<longrightarrow> res = None) \<and> (\<not> errors_Is e Canceled \<longrightarrow> res = Some e)"
    by (simp add: Close_return_def)
qed

theorem Close_Shutdown_cancellation_witness:
  "Close [] [TaskReturn 0 example_success] (example_failed (Wrapped ''send'' Canceled))
     = Some (None, example_failed (Wrapped ''send'' Canceled), []) \<and>
   err (reports (example_failed (Wrapped ''send'' Canceled))) = Some (Wrapped ''send'' Canceled) \<and>
   errors_Is (Wrapped ''send'' Canceled) Canceled \<and>
   Close [] [TaskReturn 0 example_success] (example_failed (ErrorString ''boom''))
     = Some (Some (ErrorString ''boom''), example_failed (ErrorString ''boom''), []) \<and>
   err (reports (example_failed (ErrorString ''boom''))) = Some (ErrorString ''boom'') \<and>
   \<not> errors_Is (ErrorString ''boom'') Canceled \<and>
   Shutdown ReportsDone [] [] [] example_reporter = Some (None, example_drained, []) \<and>
   err (reports example_drained) = None \<and>
   Shutdown CtxDone [] [] [TaskReturn 0 example_success] (example_failed DeadlineExceeded)
     = Some (Some DeadlineExceeded, (example_failed DeadlineExceeded)\<lparr>shuttingDown := True\<rparr>, []) \<and>
   err (reports ((example_failed DeadlineExceeded)\<lparr>shuttingDown := True\<rparr>)) = Some DeadlineExceeded \<and>
   \<not> errors_Is DeadlineExceeded Canceled"
proof -
  have i1: "errors_Is (Wrapped ''send'' Canceled) Canceled"
    and i2: "\<not> errors_Is (ErrorString ''boom'') Canceled"
    and i3: "\<not> errors_Is DeadlineExceeded Canceled" by simp_all
  have e1: "err (reports (example_failed (Wrapped ''send'' Canceled))) = Some (Wrapped ''send'' Canceled)"
    and e2: "err (reports (example_failed (ErrorString ''boom''))) = Some (ErrorString ''boom'')"
    and e3: "err (reports example_drained) = None"
    and e4: "err (reports ((example_failed DeadlineExceeded)\<lparr>shuttingDown := True\<rparr>))
      = Some DeadlineExceeded"
    by (simp_all add: example_failed_def example_drained_def example_reporter_def example_group_def)
  obtain res1 where c1: "Close [] [TaskReturn 0 example_success]
      (example_failed (Wrapped ''send'' Canceled))
        = Some (res1, example_failed (Wrapped ''send'' Canceled), [])"
    using Close_example_failed by blast
  from Close_Shutdown_cancellation [of "[]" "[TaskReturn 0 example_success]"
      "example_failed (Wrapped ''send'' Canceled)" res1
      "example_failed (Wrapped ''send'' Canceled)" "[]"] c1 e1 i1
  have "res1 = None" by blast
  with c1 have a1: "Close [] [TaskReturn 0 example_success]
      (example_failed (Wrapped ''send'' Canceled))
        = Some (None, example_failed (Wrapped ''send'' Canceled), [])" by simp
  obtain res2 where c2: "Close [] [TaskReturn 0 example_success]
      (example_failed (ErrorString ''boom''))
        = Some (res2, example_failed (ErrorString ''boom''), [])"
    using Close_example_failed by blast
  from Close_Shutdown_cancellation [of "[]" "[TaskReturn 0 example_success]"
      "example_failed (ErrorString ''boom'')" res2
      "example_failed (ErrorString ''boom'')" "[]"] c2 e2 i2
  have "res2 = Some (ErrorString ''boom'')" by blast
  with c2 have a2: "Close [] [TaskReturn 0 example_success]
      (example_failed (ErrorString ''boom''))
        = Some (Some (ErrorString ''boom''), example_failed (ErrorString ''boom''), [])" by simp
  note a3 = Shutdown_example
  obtain res4 where c4: "Shutdown CtxDone [] [] [TaskReturn 0 example_success]
      (example_failed DeadlineExceeded)
        = Some (res4, (example_failed DeadlineExceeded)\<lparr>shuttingDown := True\<rparr>, [])"
    using Shutdown_example_CtxDone by blast
  from Close_Shutdown_cancellation [of "[]" "[TaskReturn 0 example_success]"
      "example_failed DeadlineExceeded" res4
      "(example_failed DeadlineExceeded)\<lparr>shuttingDown := True\<rparr>" "[]" CtxDone "[]"] c4 e4 i3
  have "res4 = Some DeadlineExceeded" by blast
  with c4 have a4: "Shutdown CtxDone [] [] [TaskReturn 0 example_success]
      (example_failed DeadlineExceeded)
        = Some (Some DeadlineExceeded, (example_failed DeadlineExceeded)\<lparr>shuttingDown := True\<rparr>, [])"
    by simp
  show ?thesis by (intro conjI) (fact i1 i2 i3 e1 e2 e3 e4 a1 a2 a3 a4)+
qed

section \<open>The opt-out\<close>

lemma NewReporter_effects:
  "fst (NewReporter env ctx_done roots_ok rnd conf) =
     Getenv telemetryOptOutEnvVar #
       (if os_Getenv env telemetryOptOutEnvVar = [] then []
        else [Log Info ''Telemetry reporting is disabled'' None])"
  by (simp add: NewReporter_def Let_def split: sum.splits option.splits)

lemma NewReporter_isl:
  "isl (snd (NewReporter env ctx_done roots_ok rnd conf)) =
     ((HTTPClient conf = None \<and> \<not> roots_ok) \<or> isl (GenerateID 16 rnd))"
  by (simp add: NewReporter_def Let_def split: sum.splits option.splits)

lemma ReportEvent_no_Getenv:
  "filter is_Getenv (snd (snd (ReportEvent now r event))) = []"
  by (simp add: ReportEvent_def Let_def split: prod.splits)

lemma run_task_no_Getenv:
  "filter is_Getenv (snd (run_task r t transport)) = []"
  by (cases t) (simp_all add: report_closure_def Let_def split: option.splits)

lemma step_no_Getenv:
  assumes "step a r = Some (r', out)"
  shows "filter is_Getenv out = []"
proof (cases a)
  case (CallReportEvent now event)
  with assms ReportEvent_no_Getenv [of now r event] show ?thesis
    by (auto split: prod.splits)
next
  case StoreShuttingDown
  with assms show ?thesis by auto
next
  case CloseGo
  with assms show ?thesis by (auto split: option.splits)
next
  case (TaskReturn i transport)
  with assms run_task_no_Getenv [of r "running (reports r) ! i" transport] show ?thesis
    by (auto split: if_splits prod.splits)
next
  case WaitReturn
  with assms show ?thesis by (auto split: option.splits)
qed

lemma run_no_Getenv:
  "run acts r = Some (r', out) \<Longrightarrow> filter is_Getenv out = []"
proof (induction acts arbitrary: r out)
  case Nil
  then show ?case by simp
next
  case (Cons a acts)
  from Cons.prems obtain r1 o1 o2 where s: "step a r = Some (r1, o1)"
    and t: "run acts r1 = Some (r', o2)" and o: "out = o1 @ o2"
    by (auto split: option.splits prod.splits)
  from step_no_Getenv [OF s] Cons.IH [OF t] o show ?case by simp
qed

lemma run_example_disabled:
  "run [CallReportEvent (1700000000, 0) example_event] example_disabled
     = Some (example_disabled,
        [Log Debug ''Telemetry reporting is disabled, dropping event'' None])"
  by (simp add: ReportEvent_def example_disabled_def example_reporter_def)

text \<open>
  C6. \<^verbatim>\<open>NewReporter\<close> reads the environment exactly once, the opt-out variable.
  Whether construction succeeds does not depend on the environment: it succeeds with the
  variable set exactly when it succeeds without it. If the variable is set to a non-empty
  value, the reporter is created with \<open>enabled = false\<close>. No later step, and no call of
  \<^verbatim>\<open>ReportEvent\<close>, reads the environment or changes the \<open>enabled\<close> flag.
\<close>

theorem opt_out_read_once:
  "filter is_Getenv (fst (NewReporter env ctx_done roots_ok rnd conf))
     = [Getenv telemetryOptOutEnvVar] \<and>
   isl (snd (NewReporter env ctx_done roots_ok rnd conf))
     = isl (snd (NewReporter Map.empty ctx_done roots_ok rnd conf)) \<and>
   (env telemetryOptOutEnvVar = Some v \<and> v \<noteq> [] \<and>
    NewReporter env ctx_done roots_ok rnd conf = (out0, Inr r0) \<longrightarrow> \<not> enabled r0) \<and>
   (NewReporter env ctx_done roots_ok rnd conf = (out0, Inr r0) \<and>
    run acts r0 = Some (r, out) \<longrightarrow>
      enabled r = enabled r0 \<and> filter is_Getenv out = []) \<and>
   enabled (fst (ReportEvent now r1 event)) = enabled r1 \<and>
   filter is_Getenv (snd (snd (ReportEvent now r1 event))) = []"
proof (intro conjI impI)
  show "filter is_Getenv (fst (NewReporter env ctx_done roots_ok rnd conf))
     = [Getenv telemetryOptOutEnvVar]"
    by (simp add: NewReporter_effects)
  show "isl (snd (NewReporter env ctx_done roots_ok rnd conf))
     = isl (snd (NewReporter Map.empty ctx_done roots_ok rnd conf))"
    by (simp only: NewReporter_isl)
next
  assume h: "env telemetryOptOutEnvVar = Some v \<and> v \<noteq> [] \<and>
    NewReporter env ctx_done roots_ok rnd conf = (out0, Inr r0)"
  then have "enabled r0 = (os_Getenv env telemetryOptOutEnvVar = [])"
    using NewReporter_Inr by blast
  with h show "\<not> enabled r0" by (simp add: os_Getenv_def)
next
  assume h: "NewReporter env ctx_done roots_ok rnd conf = (out0, Inr r0) \<and>
    run acts r0 = Some (r, out)"
  then have r: "run acts r0 = Some (r, out)" by simp
  from run_fields [OF r] show "enabled r = enabled r0" by simp
  from run_no_Getenv [OF r] show "filter is_Getenv out = []" .
next
  obtain r' event' out' where e: "ReportEvent now r1 event = (r', event', out')"
    by (cases "ReportEvent now r1 event")
  from ReportEvent_fields [OF e] e show "enabled (fst (ReportEvent now r1 event)) = enabled r1"
    by simp
  show "filter is_Getenv (snd (snd (ReportEvent now r1 event))) = []"
    by (rule ReportEvent_no_Getenv)
qed

theorem opt_out_read_once_witness:
  "[''NSH_NO_TELEMETRY'' \<mapsto> ''1''] telemetryOptOutEnvVar = Some ''1'' \<and> ''1'' \<noteq> [] \<and>
   NewReporter [''NSH_NO_TELEMETRY'' \<mapsto> ''1''] False True example_rnd example_conf
     = ([Getenv ''NSH_NO_TELEMETRY'', Log Info ''Telemetry reporting is disabled'' None],
        Inr example_disabled) \<and>
   run [CallReportEvent (1700000000, 0) example_event] example_disabled
     = Some (example_disabled,
        [Log Debug ''Telemetry reporting is disabled, dropping event'' None]) \<and>
   \<not> enabled example_disabled"
proof -
  have v: "[''NSH_NO_TELEMETRY'' \<mapsto> ''1''] telemetryOptOutEnvVar = Some ''1''"
    and w: "''1'' \<noteq> []"
    by (simp_all add: telemetryOptOutEnvVar_def)
  note n = NewReporter_example_disabled
  note r = run_example_disabled
  from opt_out_read_once [of "[''NSH_NO_TELEMETRY'' \<mapsto> ''1'']" False True example_rnd
      example_conf "''1''"
      "[Getenv ''NSH_NO_TELEMETRY'', Log Info ''Telemetry reporting is disabled'' None]"
      example_disabled "[CallReportEvent (1700000000, 0) example_event]" example_disabled
      "[Log Debug ''Telemetry reporting is disabled, dropping event'' None]"] v w n r
  have d: "\<not> enabled example_disabled" by blast
  show ?thesis by (intro conjI) (fact v w n r d)+
qed

section \<open>Results of the background tasks\<close>

lemma report_closure_nil: "fst (report_closure r event transport) = None"
  by (simp add: report_closure_def Let_def split: option.splits)

lemma run_task_result:
  "fst (run_task r t transport) = (if is_ReportTask t then None else Some Canceled)"
  by (cases t) (simp_all add: report_closure_nil)

lemma task_returned_err:
  assumes "err g = None \<or> err g = Some Canceled" and "res = None \<or> res = Some Canceled"
  shows "err (task_returned g i res) = None \<or> err (task_returned g i res) = Some Canceled"
  using assms by (auto simp: task_returned_def Let_def split: option.splits)

lemma step_err:
  assumes "step a r = Some (r', out)"
    and "err (reports r) = None \<or> err (reports r) = Some Canceled"
  shows "err (reports r') = None \<or> err (reports r') = Some Canceled"
proof (cases a)
  case (CallReportEvent now event)
  with assms(1) obtain event' where "ReportEvent now r event = (r', event', out)"
    by (auto split: prod.splits)
  from ReportEvent_fields [OF this] assms(2) show ?thesis by simp
next
  case StoreShuttingDown
  with assms show ?thesis by auto
next
  case CloseGo
  with assms show ?thesis by (auto simp: Go_def split: option.splits if_splits)
next
  case (TaskReturn i transport)
  with assms(1) have r': "r' = r\<lparr>reports := task_returned (reports r) i
      (fst (run_task r (running (reports r) ! i) transport))\<rparr>"
    by (auto split: if_splits prod.splits)
  have "fst (run_task r (running (reports r) ! i) transport) = None \<or>
      fst (run_task r (running (reports r) ! i) transport) = Some Canceled"
    by (simp add: run_task_result)
  from task_returned_err [OF assms(2) this] r' show ?thesis by simp
next
  case WaitReturn
  with assms show ?thesis by (auto simp: Wait_def split: option.splits if_splits)
qed

lemma run_err:
  "run acts r = Some (r', out) \<Longrightarrow> err (reports r) = None \<or> err (reports r) = Some Canceled
     \<Longrightarrow> err (reports r') = None \<or> err (reports r') = Some Canceled"
proof (induction acts arbitrary: r out)
  case Nil
  then show ?case by simp
next
  case (Cons a acts)
  from Cons.prems(1) obtain r1 o1 o2 where s: "step a r = Some (r1, o1)"
    and t: "run acts r1 = Some (r', o2)"
    by (auto split: option.splits prod.splits)
  from Cons.IH [OF t step_err [OF s Cons.prems(2)]] show ?case .
qed

lemma reachable_err:
  assumes "NewReporter env ctx_done roots_ok rnd conf = (out0, Inr r0)"
    and "run acts r0 = Some (r, out)"
  shows "err (reports r) = None \<or> err (reports r) = Some Canceled"
proof -
  from NewReporter_Inr [OF assms(1)] have "err (reports r0) = None"
    by (simp add: SetLimit_def WithContext_def)
  with run_err [OF assms(2)] show ?thesis by simp
qed

lemma Close_return_nil:
  "werr = None \<or> werr = Some Canceled \<Longrightarrow> Close_return werr = None"
  by (auto simp: Close_return_def)

lemma step_TaskReturn_first:
  assumes "running (reports r) \<noteq> []"
  shows "\<exists>r' out. step (TaskReturn 0 transport) r = Some (r', out) \<and>
      running (reports r') = tl (running (reports r)) \<and> sem (reports r') = sem (reports r)"
proof -
  from assms obtain t ts where "running (reports r) = t # ts" by (cases "running (reports r)") auto
  then show ?thesis
    by (cases "run_task r t transport")
      (auto simp: task_returned_def Let_def drop_Suc split: option.splits)
qed

lemma run_drain:
  "length (running (reports r)) = n \<Longrightarrow>
   \<exists>r' out. run (replicate n (TaskReturn 0 transport)) r = Some (r', out) \<and>
      running (reports r') = [] \<and> sem (reports r') = sem (reports r)"
proof (induction n arbitrary: r)
  case 0
  then show ?case by simp
next
  case (Suc n)
  then have "running (reports r) \<noteq> []" by auto
  from step_TaskReturn_first [OF this, of transport] obtain r1 o1
    where s: "step (TaskReturn 0 transport) r = Some (r1, o1)"
      and t: "running (reports r1) = tl (running (reports r))"
      and c: "sem (reports r1) = sem (reports r)" by blast
  from t Suc.prems have "length (running (reports r1)) = n" by simp
  from Suc.IH [OF this] obtain r' o2
    where "run (replicate n (TaskReturn 0 transport)) r1 = Some (r', o2)"
      and "running (reports r') = []" and "sem (reports r') = sem (reports r1)" by blast
  with s c show ?case by simp
qed

lemma Close_returns:
  assumes "sem (reports r) = Some maxConcurrentReports"
  shows "\<exists>res r' out.
    Close (replicate (length (running (reports r))) (TaskReturn 0 transport))
      [TaskReturn 0 transport] r = Some (res, r', out)"
proof -
  from run_drain [OF refl, of r transport] obtain r1 o1
    where a: "run (replicate (length (running (reports r))) (TaskReturn 0 transport)) r
        = Some (r1, o1)"
      and b: "running (reports r1) = []" and c: "sem (reports r1) = sem (reports r)" by blast
  from b c assms have s: "step CloseGo r1
      = Some (r1\<lparr>reports := (reports r1)\<lparr>running := [CancelTask]\<rparr>\<rparr>, [])"
    by (simp add: Go_def has_slot_def maxConcurrentReports_def)
  let ?r2 = "r1\<lparr>reports := (reports r1)\<lparr>running := [CancelTask]\<rparr>\<rparr>"
  have "running (reports ?r2) \<noteq> []" by simp
  from step_TaskReturn_first [OF this, of transport] obtain r3 o3
    where d: "step (TaskReturn 0 transport) ?r2 = Some (r3, o3)"
      and e: "running (reports r3) = []" by auto
  from s d have "run ([CloseGo] @ [TaskReturn 0 transport]) r1 = Some (r3, o3)" by simp
  with a have "run (replicate (length (running (reports r))) (TaskReturn 0 transport)
      @ [CloseGo] @ [TaskReturn 0 transport]) r = Some (r3, o1 @ o3)"
    by (simp only: run_append [of "replicate _ _"] option.case prod.case)
  with e show ?thesis by (simp add: Close_def Wait_def)
qed

lemma step_cancel_tasks:
  assumes "step a r = Some (r', out)" and "a \<noteq> CloseGo"
  shows "length (filter (\<lambda>t. \<not> is_ReportTask t) (running (reports r')))
       \<le> length (filter (\<lambda>t. \<not> is_ReportTask t) (running (reports r)))"
proof (cases a)
  case (CallReportEvent now event)
  with assms show ?thesis
    by (auto simp: ReportEvent_def Let_def TryGo_def split: prod.splits if_splits)
next
  case StoreShuttingDown
  with assms show ?thesis by auto
next
  case CloseGo
  with assms show ?thesis by simp
next
  case (TaskReturn i transport)
  with assms show ?thesis
    by (auto simp: task_returned_def Let_def length_filter_remove
        split: option.splits if_splits prod.splits)
next
  case WaitReturn
  with assms show ?thesis by (auto simp: Wait_def split: option.splits if_splits)
qed

lemma run_example_close:
  "run [CloseGo, TaskReturn 0 example_success] example_reporter
     = Some (example_failed Canceled\<lparr>reports := (reports (example_failed Canceled))\<lparr>cancelled := True\<rparr>\<rparr>, [])"
  by (simp add: Go_def has_slot_def task_returned_def
      example_failed_def example_reporter_def example_group_def)

lemma example_failed_cancelled:
  "example_failed e\<lparr>reports := (reports (example_failed e))\<lparr>cancelled := True\<rparr>\<rparr> = example_failed e"
  by (simp add: example_failed_def example_reporter_def example_group_def)

lemma step_example_return:
  "step (TaskReturn 0 example_success) (example_busy 1)
     = Some (example_reporter, [Report example_request])"
  by (simp add: report_closure_def task_returned_def Header_Set_def
      example_busy_def example_reporter_def example_group_def
      example_request_def example_success_def)

text \<open>
  C10. The send closure returns nil whatever the transport answers; a task returns a
  non-nil result only if it is the closure of \<^verbatim>\<open>Close\<close>, the result is
  \<^verbatim>\<open>context.Canceled\<close>, and no step other than the \<^verbatim>\<open>Go\<close> of \<^verbatim>\<open>Close\<close> adds
  such a task. Hence in every state that \<^verbatim>\<open>NewReporter\<close> and later steps lead to, the
  error of the group is nil or \<^verbatim>\<open>context.Canceled\<close>; \<^verbatim>\<open>Close\<close> returns nil whenever
  it returns, and it does return once the running tasks have returned; \<^verbatim>\<open>Shutdown\<close>
  returns nil whenever it returns, by either case of its \<^verbatim>\<open>select\<close>.
\<close>

theorem tasks_return_nil:
  "fst (report_closure r1 event transport) = None \<and>
   fst (run_task r1 t transport) = (if is_ReportTask t then None else Some Canceled) \<and>
   (step a r1 = Some (r2, out2) \<and> a \<noteq> CloseGo \<longrightarrow>
      length (filter (\<lambda>t. \<not> is_ReportTask t) (running (reports r2)))
        \<le> length (filter (\<lambda>t. \<not> is_ReportTask t) (running (reports r1)))) \<and>
   (NewReporter env ctx_done roots_ok rnd conf = (out0, Inr r0) \<and>
    run acts r0 = Some (r, out) \<longrightarrow>
      (err (reports r) = None \<or> err (reports r) = Some Canceled) \<and>
      (Close pre post r = Some (res, r', out') \<longrightarrow> res = None) \<and>
      (Shutdown c wait pre post r = Some (res, r', out') \<longrightarrow> res = None) \<and>
      (\<exists>pre post r' out'. Close pre post r = Some (None, r', out')))"
proof (intro conjI impI)
  show "fst (report_closure r1 event transport) = None" by (rule report_closure_nil)
  show "fst (run_task r1 t transport) = (if is_ReportTask t then None else Some Canceled)"
    by (rule run_task_result)
next
  assume "step a r1 = Some (r2, out2) \<and> a \<noteq> CloseGo"
  then show "length (filter (\<lambda>t. \<not> is_ReportTask t) (running (reports r2)))
        \<le> length (filter (\<lambda>t. \<not> is_ReportTask t) (running (reports r1)))"
    using step_cancel_tasks by blast
next
  assume h: "NewReporter env ctx_done roots_ok rnd conf = (out0, Inr r0) \<and>
    run acts r0 = Some (r, out)"
  then have n: "NewReporter env ctx_done roots_ok rnd conf = (out0, Inr r0)"
    and ru: "run acts r0 = Some (r, out)" by simp_all
  from reachable_err [OF n ru]
  show inv: "err (reports r) = None \<or> err (reports r) = Some Canceled" .
  { assume "Close pre post r = Some (res, r', out')"
    then obtain r3 where "run (pre @ [CloseGo] @ post) r = Some (r3, out')"
      and "res = Close_return (err (reports r3))" by (rule Close_run)
    with run_err [OF this(1) inv] show "res = None" by (simp add: Close_return_nil) }
  { assume "Shutdown c wait pre post r = Some (res, r', out')"
    then obtain r3 where "run (StoreShuttingDown # wait @
        (if c = CtxDone then pre @ [CloseGo] @ post else [])) r = Some (r3, out')"
      and "res = Close_return (err (reports r3))" by (rule Shutdown_run)
    with run_err [OF this(1) inv] show "res = None" by (simp add: Close_return_nil) }
  from reachable_fields [OF n ru] have "sem (reports r) = Some maxConcurrentReports" by simp
  from Close_returns [OF this, of example_success] obtain res1 r4 o4
    where cl: "Close (replicate (length (running (reports r))) (TaskReturn 0 example_success))
      [TaskReturn 0 example_success] r = Some (res1, r4, o4)" by blast
  then obtain r3 where "run (replicate (length (running (reports r))) (TaskReturn 0 example_success)
        @ [CloseGo] @ [TaskReturn 0 example_success]) r = Some (r3, o4)"
      and "res1 = Close_return (err (reports r3))" by (rule Close_run)
  with run_err [OF this(1) inv] have "res1 = None" by (simp add: Close_return_nil)
  with cl show "\<exists>pre post r' out'. Close pre post r = Some (None, r', out')" by blast
qed

theorem tasks_return_nil_witness:
  "step (TaskReturn 0 example_success) (example_busy 1)
     = Some (example_reporter, [Report example_request]) \<and>
   TaskReturn 0 example_success \<noteq> CloseGo \<and>
   length (filter (\<lambda>t. \<not> is_ReportTask t) (running (reports example_reporter)))
     \<le> length (filter (\<lambda>t. \<not> is_ReportTask t) (running (reports (example_busy 1)))) \<and>
   NewReporter Map.empty False True example_rnd example_conf
     = ([Getenv ''NSH_NO_TELEMETRY''], Inr example_reporter) \<and>
   run [CloseGo, TaskReturn 0 example_success] example_reporter
     = Some (example_failed Canceled, []) \<and>
   err (reports (example_failed Canceled)) = Some Canceled \<and>
   Close [] [TaskReturn 0 example_success] (example_failed Canceled)
     = Some (None, example_failed Canceled, []) \<and>
   Shutdown CtxDone [] [] [TaskReturn 0 example_success] (example_failed Canceled)
     = Some (None, (example_failed Canceled)\<lparr>shuttingDown := True\<rparr>, [])"
proof -
  note s = step_example_return
  have a: "TaskReturn 0 example_success \<noteq> CloseGo" by simp
  note n = NewReporter_example
  have r: "run [CloseGo, TaskReturn 0 example_success] example_reporter
     = Some (example_failed Canceled, [])"
    using run_example_close by (simp only: example_failed_cancelled)
  have e: "err (reports (example_failed Canceled)) = Some Canceled"
    by (simp add: example_failed_def example_reporter_def example_group_def)
  obtain res1 where c1: "Close [] [TaskReturn 0 example_success] (example_failed Canceled)
     = Some (res1, example_failed Canceled, [])"
    using Close_example_failed by blast
  obtain res2 where c2: "Shutdown CtxDone [] [] [TaskReturn 0 example_success]
      (example_failed Canceled)
     = Some (res2, (example_failed Canceled)\<lparr>shuttingDown := True\<rparr>, [])"
    using Shutdown_example_CtxDone by blast
  note t1 = tasks_return_nil [of "example_busy 1" _ _ _ "TaskReturn 0 example_success"
      example_reporter "[Report example_request]"
      Map.empty False True example_rnd example_conf "[Getenv ''NSH_NO_TELEMETRY'']"
      example_reporter "[CloseGo, TaskReturn 0 example_success]" "example_failed Canceled" "[]"
      "[]" "[TaskReturn 0 example_success]" res1 "example_failed Canceled" "[]"]
  from t1 s a
  have k0: "length (filter (\<lambda>t. \<not> is_ReportTask t) (running (reports example_reporter)))
      \<le> length (filter (\<lambda>t. \<not> is_ReportTask t) (running (reports (example_busy 1))))"
    by blast
  from t1 n r c1
  have "res1 = None" by blast
  with c1 have k1: "Close [] [TaskReturn 0 example_success] (example_failed Canceled)
     = Some (None, example_failed Canceled, [])" by simp
  from tasks_return_nil [of _ _ _ _ "TaskReturn 0 example_success" _ _
      Map.empty False True example_rnd example_conf "[Getenv ''NSH_NO_TELEMETRY'']"
      example_reporter "[CloseGo, TaskReturn 0 example_success]" "example_failed Canceled" "[]"
      "[]" "[TaskReturn 0 example_success]" res2
      "(example_failed Canceled)\<lparr>shuttingDown := True\<rparr>" "[]" CtxDone "[]"] n r c2
  have "res2 = None" by blast
  with c2 have k2: "Shutdown CtxDone [] [] [TaskReturn 0 example_success]
      (example_failed Canceled)
     = Some (None, (example_failed Canceled)\<lparr>shuttingDown := True\<rparr>, [])" by simp
  show ?thesis by (intro conjI) (fact s a k0 n r e k1 k2)+
qed

end
